theory Spec2Isabelle
  imports Main "HOL-Library.Sublist"
begin

section \<open>JavaScript strings and arrays\<close>

text \<open>
  A JavaScript string is a sequence of UTF-16 code units and \<open>s.length\<close> counts code
  units, so a string is modelled as the list of its code units. \<open>str\<close> embeds an ASCII
  literal. The emoji of the summaries are written out as their code units.
\<close>

type_synonym jsstring = "nat list"

definition str :: "string \<Rightarrow> jsstring" where
  "str s = map of_char s"

definition nl :: nat where
  "nl = 10"

definition slash :: nat where
  "slash = 47"

text \<open>\<open>s.includes(pat)\<close> of a string: \<open>pat\<close> occurs in \<open>s\<close> as a contiguous block.\<close>

fun jsIncludes :: "'a list \<Rightarrow> 'a list \<Rightarrow> bool" where
  "jsIncludes [] pat = (pat = [])"
| "jsIncludes (c # cs) pat = (prefix pat (c # cs) \<or> jsIncludes cs pat)"

text \<open>
  \<open>s.toLowerCase()\<close>. The letters \<open>A\<close> to \<open>Z\<close> go to \<open>a\<close> to \<open>z\<close>; the case tables
  of the other code units belong to the runtime and are left out, those units stay as
  they are. Every marker the program looks for is ASCII.
\<close>

definition lowerUnit :: "nat \<Rightarrow> nat" where
  "lowerUnit c = (if 65 \<le> c \<and> c \<le> 90 then c + 32 else c)"

definition toLowerCase :: "jsstring \<Rightarrow> jsstring" where
  "toLowerCase s = map lowerUnit s"

text \<open>
  \<open>s.split(sep)\<close> for a separator of one code unit: always at least one piece, the
  empty string gives one empty piece.
\<close>

fun splitOn :: "'a \<Rightarrow> 'a list \<Rightarrow> 'a list list" where
  "splitOn sep [] = [[]]"
| "splitOn sep (c # cs) =
     (if c = sep then [] # splitOn sep cs
      else (case splitOn sep cs of [] \<Rightarrow> [[c]] | l # ls \<Rightarrow> (c # l) # ls))"

text \<open>\<open>xs.join(sep)\<close> on an array of strings.\<close>

fun joinWith :: "'a list \<Rightarrow> 'a list list \<Rightarrow> 'a list" where
  "joinWith sep [] = []"
| "joinWith sep [x] = x"
| "joinWith sep (x # y # ys) = x @ sep @ joinWith sep (y # ys)"

text \<open>\<open>xs.slice(-k)\<close>: the last \<open>k\<close> elements, all of them when there are fewer.\<close>

definition sliceLast :: "nat \<Rightarrow> 'a list \<Rightarrow> 'a list" where
  "sliceLast k xs = drop (length xs - k) xs"

text \<open>\<open>xs.slice(0, -1)\<close>: all but the last element.\<close>

definition sliceInit :: "'a list \<Rightarrow> 'a list" where
  "sliceInit xs = take (length xs - 1) xs"

text \<open>\<open>xs.pop()\<close> on the pieces of a split, which are never empty.\<close>

definition pop :: "jsstring list \<Rightarrow> jsstring" where
  "pop xs = (case xs of [] \<Rightarrow> [] | _ \<Rightarrow> last xs)"

text \<open>\<open>a || b\<close> on strings: the empty string is falsy.\<close>

definition orElse :: "jsstring \<Rightarrow> jsstring \<Rightarrow> jsstring" where
  "orElse a b = (if a = [] then b else a)"

text \<open>\<open>v || d\<close> where \<open>v\<close> may be \<open>undefined\<close>.\<close>

definition orDefault :: "jsstring option \<Rightarrow> jsstring \<Rightarrow> jsstring" where
  "orDefault v d = (case v of None \<Rightarrow> d | Some s \<Rightarrow> orElse s d)"

text \<open>A non-negative integer in a template literal: its decimal digits.\<close>

function numToString :: "nat \<Rightarrow> jsstring" where
  "numToString n = (if n < 10 then [48 + n] else numToString (n div 10) @ [48 + n mod 10])"
  by pat_completeness auto
termination
  by (relation "measure id") auto

declare numToString.simps [simp del]

text \<open>\<open>new Set(xs)\<close> spread back into an array: first occurrences, in order.\<close>

definition setAdd :: "'a \<Rightarrow> 'a list \<Rightarrow> 'a list" where
  "setAdd x acc = (if x \<in> set acc then acc else acc @ [x])"

definition uniq :: "'a list \<Rightarrow> 'a list" where
  "uniq xs = fold setAdd xs []"

section \<open>Types and helpers (src/types.ts, src/utils/helpers.ts)\<close>

text \<open>The observation types named by the specification; the classifier returns seven of them.\<close>

datatype ObservationType =
  Discovery | Decision | Problem | Solution | Success | Warning | Bugfix | Refactor
  | Feature | Session

definition typeName :: "ObservationType \<Rightarrow> jsstring" where
  "typeName t = (case t of
       Discovery \<Rightarrow> str ''discovery'' | Decision \<Rightarrow> str ''decision''
     | Problem \<Rightarrow> str ''problem'' | Solution \<Rightarrow> str ''solution''
     | Success \<Rightarrow> str ''success'' | Warning \<Rightarrow> str ''warning''
     | Bugfix \<Rightarrow> str ''bugfix'' | Refactor \<Rightarrow> str ''refactor''
     | Feature \<Rightarrow> str ''feature'' | Session \<Rightarrow> str ''session'')"

text \<open>\<open>estimateTokens\<close>: \<open>Math.ceil(text.length / 4)\<close>.\<close>

definition estimateTokens :: "jsstring \<Rightarrow> nat" where
  "estimateTokens t = (length t + 3) div 4"

definition classifyObservationType :: "jsstring \<Rightarrow> jsstring \<Rightarrow> ObservationType" where
  "classifyObservationType toolName output =
     (let lowerOutput = toLowerCase output in
      if jsIncludes lowerOutput (str ''error'') \<or> jsIncludes lowerOutput (str ''failed'')
         \<or> jsIncludes lowerOutput (str ''exception'') then Problem
      else if jsIncludes lowerOutput (str ''success'') \<or> jsIncludes lowerOutput (str ''passed'')
         \<or> jsIncludes lowerOutput (str ''completed'') then Success
      else if jsIncludes lowerOutput (str ''warning'') \<or> jsIncludes lowerOutput (str ''deprecated'')
         then Warning
      else if toolName = str ''Read'' \<or> toolName = str ''Glob'' \<or> toolName = str ''Grep''
         then Discovery
      else if toolName = str ''Edit'' then
         (if jsIncludes lowerOutput (str ''fix'') \<or> jsIncludes lowerOutput (str ''bug'')
          then Bugfix else Refactor)
      else if toolName = str ''Write'' then Feature
      else Discovery)"

section \<open>Compression (src/utils/compression.ts)\<close>

text \<open>
  A thrown JavaScript error is a value of \<open>jsError\<close>; a function that can throw returns
  \<open>jsError + 'a\<close>, with \<open>Inl\<close> for the throw.
\<close>

datatype jsError =
  TypeError | LockFailed | FsFailed | SdkFailed | CreateFailed | EngineError jsstring

text \<open>
  The values the program receives from outside: what \<open>JSON.parse\<close> returns and what the
  host puts into the metadata of a tool call. An object is the list of its own
  properties; a number is an integer.
\<close>

datatype json =
  JNull | JBool bool | JNumber int | JString jsstring | JArray "json list"
  | JObject "(jsstring \<times> json) list"

definition truthy :: "json \<Rightarrow> bool" where
  "truthy v = (case v of JNull \<Rightarrow> False | JBool b \<Rightarrow> b | JNumber n \<Rightarrow> n \<noteq> 0
     | JString s \<Rightarrow> s \<noteq> [] | JArray _ \<Rightarrow> True | JObject _ \<Rightarrow> True)"

text \<open>
  A value in a template literal: a string is itself, an array the texts of its elements
  joined by commas with nothing for \<open>null\<close>, an object \<open>[object Object]\<close>. An integer
  is printed in decimal, as the runtime does below \<open>10^21\<close>.
\<close>

fun jsToString :: "json \<Rightarrow> jsstring" where
  "jsToString JNull = str ''null''"
| "jsToString (JBool b) = (if b then str ''true'' else str ''false'')"
| "jsToString (JNumber n) = (if n < 0 then 45 # numToString (nat (- n)) else numToString (nat n))"
| "jsToString (JString s) = s"
| "jsToString (JArray xs) =
     joinWith [44] (map (\<lambda>x. if x = JNull then [] else jsToString x) xs)"
| "jsToString (JObject props) = str ''[object Object]''"

text \<open>
  The tool input is the hook's metadata object, a record whose values are of any kind
  (\<open>Record<string, unknown>\<close>); they are taken to be JSON values, and the whole object
  may be \<open>undefined\<close>. \<open>inputField\<close> is \<open>toolInput?.field || dflt\<close>: the default
  replaces a property that is absent or falsy.
\<close>

type_synonym toolInput = "(jsstring \<times> json) list"

definition inputField :: "string \<Rightarrow> toolInput option \<Rightarrow> jsstring \<Rightarrow> json" where
  "inputField field ti dflt =
     (case ti of
        None \<Rightarrow> JString dflt
      | Some props \<Rightarrow>
          (case map_of props (str field) of
             None \<Rightarrow> JString dflt
           | Some v \<Rightarrow> if truthy v then v else JString dflt))"

text \<open>
  \<open>v.split(sep)\<close> is called on the value whatever it is: on a string the call goes to
  \<open>String.prototype.split\<close>, every other value has no function \<open>split\<close> and the call
  throws a \<open>TypeError\<close>.
\<close>

definition stringOnly :: "json \<Rightarrow> jsError + jsstring" where
  "stringOnly v = (case v of JString s \<Rightarrow> Inr s | _ \<Rightarrow> Inl TypeError)"

text \<open>
  \<open>`${v.slice(0, k)}`\<close>: strings and arrays have a function \<open>slice\<close>, the other values
  do not.
\<close>

definition sliceText :: "nat \<Rightarrow> json \<Rightarrow> jsError + jsstring" where
  "sliceText k v =
     (case v of
        JString s \<Rightarrow> Inr (take k s)
      | JArray xs \<Rightarrow> Inr (jsToString (JArray (take k xs)))
      | _ \<Rightarrow> Inl TypeError)"

record compressResult =
  compressed :: jsstring
  wasCompressed :: bool
  originalSize :: nat

definition TARGET_COMPRESSED_SIZE :: nat where
  "TARGET_COMPRESSED_SIZE = 2000"

definition COMPRESSION_THRESHOLD :: nat where
  "COMPRESSION_THRESHOLD = 3000"

definition truncationMarker :: jsstring where
  "truncationMarker = nl # str ''... (compressed)''"

definition truncateToTarget :: "jsstring \<Rightarrow> jsstring" where
  "truncateToTarget t =
     (if length t \<le> TARGET_COMPRESSED_SIZE then t
      else take (TARGET_COMPRESSED_SIZE - 20) t @ truncationMarker)"

subsection \<open>Command execution\<close>

definition isErrorLine :: "jsstring \<Rightarrow> bool" where
  "isErrorLine l =
     (jsIncludes (toLowerCase l) (str ''error'') \<or> jsIncludes (toLowerCase l) (str ''failed'')
      \<or> jsIncludes (toLowerCase l) (str ''exception'')
      \<or> jsIncludes (toLowerCase l) (str ''warning''))"

definition isSuccessLine :: "jsstring \<Rightarrow> bool" where
  "isSuccessLine l =
     (jsIncludes (toLowerCase l) (str ''success'') \<or> jsIncludes (toLowerCase l) (str ''passed'')
      \<or> jsIncludes (toLowerCase l) (str ''completed'')
      \<or> jsIncludes (toLowerCase l) (str ''done''))"

definition bashCommandHeader :: jsstring where
  "bashCommandHeader = [0xD83D, 0xDDA5, 0xFE0F] @ str '' Command: ''"

definition bashErrorsHeader :: "nat \<Rightarrow> jsstring" where
  "bashErrorsHeader n = [nl, 0x274C] @ str '' Errors ('' @ numToString n @ str ''):''"

definition bashSuccessHeader :: jsstring where
  "bashSuccessHeader = [nl, 0x2705] @ str '' Success indicators:''"

definition bashFooter :: "nat \<Rightarrow> jsstring" where
  "bashFooter n = [nl, 0xD83D, 0xDCCA] @ str '' Output: '' @ numToString n @ str '' lines total''"

definition compressBashOutput :: "toolInput option \<Rightarrow> jsstring \<Rightarrow> jsError + jsstring" where
  "compressBashOutput toolInput output =
     (case stringOnly (inputField ''command'' toolInput (str ''command'')) of
        Inl e \<Rightarrow> Inl e
      | Inr command \<Rightarrow>
          (let shortCmd = take 100 (hd (splitOn nl command));
               lines = splitOn nl output;
               errorLines = filter isErrorLine lines;
               successLines = filter isSuccessLine lines;
               parts =
                 [bashCommandHeader @ shortCmd]
                 @ (if length errorLines > 0
                    then [bashErrorsHeader (length errorLines), joinWith [nl] (take 10 errorLines)]
                    else [])
                 @ (if length successLines > 0
                    then [bashSuccessHeader, joinWith [nl] (take 5 successLines)]
                    else [])
                 @ [bashFooter (length lines)]
                 @ (if length lines > 20
                    then [nl # str ''--- First 10 lines ---'', joinWith [nl] (take 10 lines),
                          nl # str ''--- Last 5 lines ---'', joinWith [nl] (sliceLast 5 lines)]
                    else [nl # str ''--- Full output ---'', joinWith [nl] lines])
           in Inr (concat parts)))"

subsection \<open>Edit and write, and the generic fallback\<close>

definition compressEditOutput :: "toolInput option \<Rightarrow> jsstring \<Rightarrow> jsError + jsstring" where
  "compressEditOutput toolInput output =
     (case stringOnly (inputField ''file_path'' toolInput (str ''unknown'')) of
        Inl e \<Rightarrow> Inl e
      | Inr filePath \<Rightarrow>
          (let fileName = orElse (pop (splitOn slash filePath)) (str ''file'')
           in Inr (joinWith [nl]
                [[0x270F, 0xFE0F] @ str '' Edited: '' @ fileName,
                 [0xD83D, 0xDCDD] @ str '' Changes applied successfully'',
                 take 500 output])))"

definition compressGeneric :: "jsstring \<Rightarrow> jsstring" where
  "compressGeneric output =
     (let lines = splitOn nl output in
      if length lines \<le> 30 then output
      else joinWith [nl]
             ([[0xD83D, 0xDCCA] @ str '' Output: '' @ numToString (length lines) @ str '' lines'',
               str ''--- First 15 lines ---'']
              @ take 15 lines
              @ [str ''--- Last 10 lines ---'']
              @ sliceLast 10 lines))"

subsection \<open>Pattern search\<close>

text \<open>
  \<open>line.match(/^([^:]+):/)\<close>: the regular expression takes the longest run of code
  units other than a colon at the start of the line, which must not be empty and must
  be followed by a colon; the run is group 1.
\<close>

definition grepFileOf :: "jsstring \<Rightarrow> jsstring option" where
  "grepFileOf line =
     (let pre = takeWhile (\<lambda>c. c \<noteq> 58) line in
      if pre \<noteq> [] \<and> length pre < length line then Some pre else None)"

definition moreSuffix :: "nat \<Rightarrow> nat \<Rightarrow> jsstring" where
  "moreSuffix n k = (if n > k then str '' (+'' @ numToString (n - k) @ str '' more)'' else [])"

definition compressGrepOutput :: "toolInput option \<Rightarrow> jsstring \<Rightarrow> jsError + jsstring" where
  "compressGrepOutput toolInput output =
     (let pattern = inputField ''pattern'' toolInput (str ''pattern'');
          lines = filter (\<lambda>l. l \<noteq> []) (splitOn nl output);
          files = uniq (List.map_filter grepFileOf lines)
      in case sliceText 50 pattern of
           Inl e \<Rightarrow> Inl e
         | Inr shortPattern \<Rightarrow>
             (let parts =
                    [[0xD83D, 0xDD0D] @ str '' Grep: '' @ [34] @ shortPattern @ [34],
                     [0xD83D, 0xDCC1] @ str '' Found in '' @ numToString (length files)
                       @ str '' files, '' @ numToString (length lines) @ str '' matches'']
                    @ (if length files > 0
                       then [[nl, 0xD83D, 0xDCC2] @ str '' Files: ''
                             @ joinWith (str '', '') (take 15 files)
                             @ moreSuffix (length files) 15]
                       else [])
                    @ [nl # str ''--- Top matches ---'', joinWith [nl] (take 10 lines)]
                    @ (if length lines > 10
                       then [nl # str ''... and '' @ numToString (length lines - 10)
                             @ str '' more matches'']
                       else [])
              in Inr (concat parts)))"

subsection \<open>File glob\<close>

text \<open>
  \<open>JSON.parse\<close> itself belongs to the runtime and is a parameter of the model (\<open>None\<close>
  when it throws). The value of \<open>files\<close> after the \<open>try\<close>/\<open>catch\<close>: reading \<open>.filenames\<close> of \<open>null\<close>
  throws inside the \<open>try\<close> and is caught like a parse error; of a number, a string, a
  boolean or an array it is \<open>undefined\<close>. A truthy value that is not an array has no
  \<open>forEach\<close>, so the call \<open>files.forEach\<close> that follows throws, outside the \<open>try\<close>:
  that is \<open>Inl TypeError\<close>.
\<close>

definition globFiles :: "(jsstring \<Rightarrow> json option) \<Rightarrow> jsstring \<Rightarrow> jsError + json list" where
  "globFiles parse output =
     (let fallback = map JString (filter (\<lambda>l. l \<noteq> []) (splitOn nl output)) in
      case parse output of
        None \<Rightarrow> Inr fallback
      | Some JNull \<Rightarrow> Inr fallback
      | Some (JObject props) \<Rightarrow>
          (case map_of props (str ''filenames'') of
             None \<Rightarrow> Inr []
           | Some v \<Rightarrow>
               if \<not> truthy v then Inr []
               else (case v of JArray fs \<Rightarrow> Inr fs | _ \<Rightarrow> Inl TypeError))
      | Some _ \<Rightarrow> Inr [])"

text \<open>
  \<open>byDir\<close> is a plain object, so \<open>byDir[dir]\<close> also finds the properties of
  \<open>Object.prototype\<close>: for those names the value is truthy, no array is stored, and
  \<open>byDir[dir].push\<close> is not a function.
\<close>

definition objectPrototypeKeys :: "jsstring list" where
  "objectPrototypeKeys = map str
     [''constructor'', ''__defineGetter__'', ''__defineSetter__'', ''hasOwnProperty'',
      ''__lookupGetter__'', ''__lookupSetter__'', ''isPrototypeOf'', ''propertyIsEnumerable'',
      ''toString'', ''valueOf'', ''__proto__'', ''toLocaleString'']"

definition pushFile ::
  "jsstring \<Rightarrow> jsstring \<Rightarrow> (jsstring \<times> jsstring list) list \<Rightarrow> (jsstring \<times> jsstring list) list" where
  "pushFile dir file byDir =
     (case map_of byDir dir of
        None \<Rightarrow> byDir @ [(dir, [file])]
      | Some _ \<Rightarrow> map (\<lambda>(d, fs). if d = dir then (d, fs @ [file]) else (d, fs)) byDir)"

fun groupByDir ::
  "json list \<Rightarrow> (jsstring \<times> jsstring list) list \<Rightarrow> jsError + (jsstring \<times> jsstring list) list" where
  "groupByDir [] byDir = Inr byDir"
| "groupByDir (f # fs) byDir =
     (case f of
        JString s \<Rightarrow>
          (let dir = orElse (joinWith [slash] (sliceInit (splitOn slash s))) [slash];
               file = orElse (pop (splitOn slash s)) s
           in if dir \<in> set objectPrototypeKeys then Inl TypeError
              else groupByDir fs (pushFile dir file byDir))
      | _ \<Rightarrow> Inl TypeError)"

text \<open>
  \<open>Object.entries\<close>: the keys that are array indices (canonical decimal numbers below
  \<open>2^32 - 1\<close>) come first, in ascending order, then the other keys in insertion order.
\<close>

definition arrayIndex :: "jsstring \<Rightarrow> nat option" where
  "arrayIndex k =
     (if k \<noteq> [] \<and> list_all (\<lambda>c. 48 \<le> c \<and> c \<le> 57) k \<and> (k = [48] \<or> hd k \<noteq> 48)
      then (let n = fold (\<lambda>c a. 10 * a + (c - 48)) k 0 in
            if n < 4294967295 then Some n else None)
      else None)"

definition objectEntries :: "(jsstring \<times> 'v) list \<Rightarrow> (jsstring \<times> 'v) list" where
  "objectEntries props =
     sort_key (\<lambda>(k, v). case arrayIndex k of Some n \<Rightarrow> n | None \<Rightarrow> 0)
       (filter (\<lambda>(k, v). arrayIndex k \<noteq> None) props)
     @ filter (\<lambda>(k, v). arrayIndex k = None) props"

definition jsonString :: "json \<Rightarrow> jsstring" where
  "jsonString v = (case v of JString s \<Rightarrow> s | _ \<Rightarrow> [])"

definition compressGlobOutput ::
  "(jsstring \<Rightarrow> json option) \<Rightarrow> toolInput option \<Rightarrow> jsstring \<Rightarrow> jsError + jsstring" where
  "compressGlobOutput parse toolInput output =
     (let pattern = inputField ''pattern'' toolInput (str ''pattern'') in
      case globFiles parse output of
        Inl e \<Rightarrow> Inl e
      | Inr files \<Rightarrow>
          (case groupByDir files [] of
             Inl e \<Rightarrow> Inl e
           | Inr byDir \<Rightarrow>
               (case sliceText 50 pattern of
                  Inl e \<Rightarrow> Inl e
                | Inr shortPattern \<Rightarrow>
                    (let topDirs =
                           take 5 (sort_key (\<lambda>(d, fs). - int (length fs)) (objectEntries byDir));
                         parts =
                           [[0xD83D, 0xDCC2] @ str '' Glob: '' @ [34] @ shortPattern @ [34],
                            [0xD83D, 0xDCC1] @ str '' Found '' @ numToString (length files)
                              @ str '' files in '' @ numToString (length byDir)
                              @ str '' directories'',
                            nl # str ''--- Top directories ---'']
                           @ map (\<lambda>(dir, dirFiles).
                                    joinWith [slash] (sliceLast 3 (splitOn slash dir)) @ str ''/ (''
                                    @ numToString (length dirFiles) @ str '' files)'') topDirs
                           @ [nl # str ''--- Sample files ---'',
                              joinWith (str '', '')
                                (map (\<lambda>f. pop (splitOn slash (jsonString f))) (take 15 files))]
                     in Inr (concat parts)))))"

subsection \<open>File read\<close>

text \<open>
  The extractors run global regular expressions in a \<open>while ((match = pattern.exec(code))
  !== null)\<close> loop. The regular-expression engine belongs to the runtime and is a
  parameter of the model: \<open>execAll r code\<close> is the list of the successive matches of the
  expression \<open>r\<close> on \<open>code\<close>, each with the matched text and its capture groups
  (\<open>None\<close> for a group that took no part). None of the expressions matches the empty
  string, so each loop ends. The expressions, in the order of the source:
  \<^item> imports: \<^verbatim>\<open>import\s+(?:{\s*([^}]+)\s*}|(\w+))\s+from\s+['"]([^'"]+)['"]\<close>,
    \<^verbatim>\<open>from\s+['"]([^'"]+)['"]\s+import\<close>, \<^verbatim>\<open>require\s*\(['"]([^'"]+)['"]\)\<close>,
    \<^verbatim>\<open>use\s+(\w+(?:::\w+)*)\<close>;
  \<^item> exports: \<^verbatim>\<open>export\s+(?:default\s+)?(?:function|class|const|let|var)\s+(\w+)\<close>,
    \<^verbatim>\<open>export\s*{\s*([^}]+)\s*}\<close>, \<^verbatim>\<open>pub\s+(?:fn|struct|enum|trait|mod)\s+(\w+)\<close>;
  \<^item> functions: \<^verbatim>\<open>(?:async\s+)?function\s+(\w+)\<close>,
    \<^verbatim>\<open>(\w+)\s*:\s*(?:async\s+)?\([^)]*\)\s*=>\<close>,
    \<^verbatim>\<open>(?:const|let)\s+(\w+)\s*=\s*(?:async\s+)?\([^)]*\)\s*=>\<close>, \<^verbatim>\<open>fn\s+(\w+)\<close>,
    \<^verbatim>\<open>def\s+(\w+)\<close>;
  \<^item> classes: \<^verbatim>\<open>class\s+(\w+)\<close>, \<^verbatim>\<open>struct\s+(\w+)\<close>, \<^verbatim>\<open>interface\s+(\w+)\<close>,
    \<^verbatim>\<open>type\s+(\w+)\s*=\<close>.
\<close>

datatype regexId =
  ImportFrom | FromImport | RequireCall | UseDecl
  | ExportDecl | ExportList | PubDecl
  | FunctionDecl | ArrowProperty | ArrowBinding | FnDecl | DefDecl
  | ClassDecl | StructDecl | InterfaceDecl | TypeAlias

record regexMatch =
  matched :: jsstring
  groups :: "jsstring option list"

text \<open>\<open>match[i]\<close> for \<open>i \<ge> 1\<close>: \<open>undefined\<close> beyond the groups of the expression.\<close>

definition grp :: "regexMatch \<Rightarrow> nat \<Rightarrow> jsstring option" where
  "grp m i = (if 1 \<le> i \<and> i \<le> length (groups m) then groups m ! (i - 1) else None)"

text \<open>
  The backup pattern of the store is built at run time from a file name: for it
  \<open>regexTest src\<close> is \<open>None\<close> when \<open>new RegExp(src)\<close> throws and the test
  \<open>name \<mapsto> pattern.test(name)\<close> otherwise.
\<close>

record runtime =
  execAll :: "regexId \<Rightarrow> jsstring \<Rightarrow> regexMatch list"
  jsonParse :: "jsstring \<Rightarrow> json option"
  regexTest :: "jsstring \<Rightarrow> (jsstring \<Rightarrow> bool) option"

text \<open>\<open>s.trim()\<close>: white space and line terminators of ECMAScript.\<close>

definition isSpaceUnit :: "nat \<Rightarrow> bool" where
  "isSpaceUnit c =
     (c \<in> {9, 10, 11, 12, 13, 32, 160, 0x1680, 0x2028, 0x2029, 0x202F, 0x205F, 0x3000, 0xFEFF}
      \<or> (0x2000 \<le> c \<and> c \<le> 0x200A))"

definition trim :: "jsstring \<Rightarrow> jsstring" where
  "trim s = rev (dropWhile isSpaceUnit (rev (dropWhile isSpaceUnit s)))"

definition extractImports :: "runtime \<Rightarrow> jsstring \<Rightarrow> jsstring list" where
  "extractImports rt code =
     uniq (concat (map (\<lambda>pattern.
        map (\<lambda>m. orDefault (grp m 3) (orDefault (grp m 1) (orDefault (grp m 2) (matched m))))
          (execAll rt pattern code))
        [ImportFrom, FromImport, RequireCall, UseDecl]))"

definition extractExports :: "runtime \<Rightarrow> jsstring \<Rightarrow> jsstring list" where
  "extractExports rt code =
     uniq (concat (map (\<lambda>pattern.
        concat (map (\<lambda>m. filter (\<lambda>n. n \<noteq> [])
                           (map trim (splitOn 44 (orDefault (grp m 1) []))))
                  (execAll rt pattern code)))
        [ExportDecl, ExportList, PubDecl]))"

text \<open>Group 1 takes part in every match of the next two sets of expressions.\<close>

definition extractFunctionSignatures :: "runtime \<Rightarrow> jsstring \<Rightarrow> jsstring list" where
  "extractFunctionSignatures rt code =
     uniq (concat (map (\<lambda>pattern. map (\<lambda>m. orDefault (grp m 1) []) (execAll rt pattern code))
        [FunctionDecl, ArrowProperty, ArrowBinding, FnDecl, DefDecl]))"

definition extractClassNames :: "runtime \<Rightarrow> jsstring \<Rightarrow> jsstring list" where
  "extractClassNames rt code =
     uniq (concat (map (\<lambda>pattern. map (\<lambda>m. orDefault (grp m 1) []) (execAll rt pattern code))
        [ClassDecl, StructDecl, InterfaceDecl, TypeAlias]))"

definition extractErrorPatterns :: "jsstring \<Rightarrow> jsstring list" where
  "extractErrorPatterns code =
     take 10 (map (\<lambda>line. take 100 (trim line))
       (filter (\<lambda>line. jsIncludes line (str ''TODO'') \<or> jsIncludes line (str ''FIXME'')
                  \<or> jsIncludes line (str ''HACK'') \<or> jsIncludes line (str ''XXX'')
                  \<or> jsIncludes line (str ''BUG''))
          (splitOn nl code)))"

definition compressFileRead ::
  "runtime \<Rightarrow> toolInput option \<Rightarrow> jsstring \<Rightarrow> jsError + jsstring" where
  "compressFileRead rt toolInput output =
     (case stringOnly (inputField ''file_path'' toolInput (str ''unknown'')) of
        Inl e \<Rightarrow> Inl e
      | Inr filePath \<Rightarrow>
          (let fileName = orElse (pop (splitOn slash filePath)) (str ''file'');
               lines = splitOn nl output;
               totalLines = length lines;
               imports = extractImports rt output;
               exports = extractExports rt output;
               functions = extractFunctionSignatures rt output;
               classes = extractClassNames rt output;
               errors = extractErrorPatterns output;
               parts =
                 [[0xD83D, 0xDCC4] @ str '' File: '' @ fileName @ str '' ('' @ numToString totalLines
                    @ str '' lines)'']
                 @ (if length imports > 0
                    then [[nl, 0xD83D, 0xDCE6] @ str '' Imports: ''
                          @ joinWith (str '', '') (take 10 imports) @ moreSuffix (length imports) 10]
                    else [])
                 @ (if length exports > 0
                    then [[nl, 0xD83D, 0xDCE4] @ str '' Exports: ''
                          @ joinWith (str '', '') (take 10 exports) @ moreSuffix (length exports) 10]
                    else [])
                 @ (if length functions > 0
                    then [[nl, 0x26A1] @ str '' Functions: ''
                          @ joinWith (str '', '') (take 10 functions)
                          @ moreSuffix (length functions) 10]
                    else [])
                 @ (if length classes > 0
                    then [[nl, 0xD83C, 0xDFD7, 0xFE0F] @ str '' Classes: ''
                          @ joinWith (str '', '') classes]
                    else [])
                 @ (if length errors > 0
                    then [[nl, 0x26A0, 0xFE0F] @ str '' Errors/TODOs: ''
                          @ joinWith (str ''; '') (take 5 errors)]
                    else []);
               contextLines =
                 [nl # str ''--- First 10 lines ---''] @ take 10 lines
                 @ [nl # str ''--- Last 5 lines ---''] @ sliceLast 5 lines
           in Inr (concat (parts @ [joinWith [nl] contextLines]))))"

subsection \<open>The dispatcher\<close>

definition compressToolOutput ::
  "runtime \<Rightarrow> jsstring \<Rightarrow> toolInput option \<Rightarrow> jsstring \<Rightarrow> jsError + compressResult" where
  "compressToolOutput rt toolName toolInput output =
     (let size = length output in
      if size \<le> COMPRESSION_THRESHOLD
      then Inr \<lparr>compressed = output, wasCompressed = False, originalSize = size\<rparr>
      else
        (case (if toolName = str ''Read'' then compressFileRead rt toolInput output
               else if toolName = str ''Bash'' then compressBashOutput toolInput output
               else if toolName = str ''Grep'' then compressGrepOutput toolInput output
               else if toolName = str ''Glob''
                 then compressGlobOutput (jsonParse rt) toolInput output
               else if toolName = str ''Edit'' \<or> toolName = str ''Write''
                 then compressEditOutput toolInput output
               else Inr (compressGeneric output))
         of Inl e \<Rightarrow> Inl e
          | Inr summary \<Rightarrow>
              Inr \<lparr>compressed = truncateToTarget summary, wasCompressed = True,
                   originalSize = size\<rparr>))"

subsection \<open>Concrete inputs of the summarizers\<close>

definition npmTest :: "toolInput option" where
  "npmTest = Some [(str ''command'', JString (str ''npm test''))]"

text \<open>
  A log of 3500 code units that contains \<open>Error: failed\<close> and \<open>All tests passed\<close>: one
  long line followed by 19 line breaks, which makes 20 lines.
\<close>

definition bashLogLine :: jsstring where
  "bashLogLine = str ''Error: failed'' @ replicate 3452 120 @ str ''All tests passed''"

definition bashLog :: jsstring where
  "bashLog = bashLogLine @ replicate 19 nl"

text \<open>The summary of this log, and the text \<open>compressToolOutput\<close> returns for it.\<close>

definition bashLogSummary :: jsstring where
  "bashLogSummary =
     [0xD83D, 0xDDA5, 0xFE0F] @ str '' Command: npm test''
     @ [10, 0x274C] @ str '' Errors (1):'' @ bashLogLine
     @ [10, 0x2705] @ str '' Success indicators:'' @ bashLogLine
     @ [10, 0xD83D, 0xDCCA] @ str '' Output: 20 lines total''
     @ 10 # str ''--- Full output ---'' @ bashLog"

definition bashLogCompressed :: jsstring where
  "bashLogCompressed =
     [0xD83D, 0xDDA5, 0xFE0F] @ str '' Command: npm test''
     @ [10, 0x274C] @ str '' Errors (1):Error: failed'' @ replicate 1932 120
     @ 10 # str ''... (compressed)''"

text \<open>
  A log of 71 lines and 3500 code units as a build prints it, with \<open>Error: failed\<close> and
  \<open>All tests passed\<close> in it: 12 lines that report an error, 6 that report success and
  53 others; the command that produced it, whose first line has 129 code units; the
  summary expected for them; and a tool input whose command is an array of words.
\<close>

definition errLine :: jsstring where
  "errLine = str ''Error: failed to compile the module, see the build output''"

definition okLine :: jsstring where
  "okLine = str ''All tests passed''"

definition plainLine :: jsstring where
  "plainLine = str ''compiling the next module, please wait for the end''"

definition ordinaryLog :: jsstring where
  "ordinaryLog = joinWith [nl] (replicate 12 errLine @ replicate 6 okLine @ replicate 53 plainLine)"

definition ordinaryCommand :: jsstring where
  "ordinaryCommand = str ''npm test '' @ replicate 120 120 @ nl # str ''echo end''"

definition ordinaryInput :: "toolInput option" where
  "ordinaryInput = Some [(str ''command'', JString ordinaryCommand)]"

definition ordinarySummary :: jsstring where
  "ordinarySummary =
     [0xD83D, 0xDDA5, 0xFE0F] @ str '' Command: '' @ str ''npm test '' @ replicate 91 120
     @ [10, 0x274C] @ str '' Errors ('' @ str ''12'' @ str ''):''
     @ joinWith [10] (replicate 10 errLine)
     @ [10, 0x2705] @ str '' Success indicators:'' @ joinWith [10] (replicate 5 okLine)
     @ [10, 0xD83D, 0xDCCA] @ str '' Output: '' @ str ''71'' @ str '' lines total''
     @ 10 # str ''--- First 10 lines ---'' @ joinWith [10] (replicate 10 errLine)
     @ 10 # str ''--- Last 5 lines ---'' @ joinWith [10] (replicate 5 plainLine)"

definition argvInput :: "toolInput option" where
  "argvInput = Some [(str ''command'', JArray [JString (str ''npm''), JString (str ''test'')])]"

subsection \<open>Markers and commands, in the words of the specification\<close>

text \<open>The lower-cased text contains one of the markers.\<close>

definition mentions :: "jsstring \<Rightarrow> string list \<Rightarrow> bool" where
  "mentions output markers = list_ex (\<lambda>m. sublist (str m) (toLowerCase output)) markers"

text \<open>
  The command a tool input names: the string given as its \<open>command\<close>; the word
  \<open>command\<close> when there is no tool input, when it has no command, and when the command
  is the empty string, \<open>null\<close>, \<open>false\<close> or zero; and none when the command is any
  other value.
\<close>

definition bashCommand :: "toolInput option \<Rightarrow> jsstring option" where
  "bashCommand ti =
     (case ti of
        None \<Rightarrow> Some (str ''command'')
      | Some props \<Rightarrow>
          (case map_of props (str ''command'') of
             None \<Rightarrow> Some (str ''command'')
           | Some (JString s) \<Rightarrow> Some (if s = [] then str ''command'' else s)
           | Some JNull \<Rightarrow> Some (str ''command'')
           | Some (JBool b) \<Rightarrow> (if b then None else Some (str ''command''))
           | Some (JNumber n) \<Rightarrow> (if n = 0 then Some (str ''command'') else None)
           | Some _ \<Rightarrow> None))"

section \<open>Paths and the file system\<close>

text \<open>
  \<open>path.resolve\<close> of Node on POSIX paths: the arguments are taken from left to right
  starting from the working directory, an absolute argument replaces what came before,
  an empty one is skipped, and the result is normalised (\<open>.\<close> and \<open>..\<close> resolved, no
  empty segment, no trailing separator).
\<close>

type_synonym path = jsstring

definition isAbsolute :: "path \<Rightarrow> bool" where
  "isAbsolute p = (case p of [] \<Rightarrow> False | c # _ \<Rightarrow> c = slash)"

fun normalizeSegments :: "jsstring list \<Rightarrow> jsstring list \<Rightarrow> jsstring list" where
  "normalizeSegments acc [] = rev acc"
| "normalizeSegments acc (s # ss) =
     (if s = [] \<or> s = str ''.'' then normalizeSegments acc ss
      else if s = str ''..'' then normalizeSegments (tl acc) ss
      else normalizeSegments (s # acc) ss)"

definition resolve :: "path \<Rightarrow> path list \<Rightarrow> path" where
  "resolve workDir args =
     (let joined = fold (\<lambda>a p. if a = [] then p else if isAbsolute a then a else p @ [slash] @ a)
                     args workDir
      in slash # joinWith [slash] (normalizeSegments [] (splitOn slash joined)))"

text \<open>\<open>path.dirname\<close>, on the normalised absolute paths that \<open>resolve\<close> returns.\<close>

definition dirname :: "path \<Rightarrow> path" where
  "dirname p = orElse (joinWith [slash] (sliceInit (splitOn slash p))) [slash]"

text \<open>
  Of a file the program observes its size (\<open>statSync\<close>), how the storage engine reacts
  when it opens it (\<open>openError\<close>: the message of the error \<open>use\<close> throws, \<open>None\<close> when
  the file opens), and the frames the engine has stored in it.
\<close>

record putFrame =
  p_title :: jsstring
  p_label :: jsstring
  p_text :: jsstring
  p_metadata :: "(jsstring \<times> json) list"
  p_tags :: "jsstring list"

record memFile =
  fsize :: nat
  openError :: "jsstring option"
  stored :: "putFrame list"

definition fileAt :: "(path \<times> memFile) list \<Rightarrow> path \<Rightarrow> memFile option" where
  "fileAt fs p = map_of fs p"

definition removeFile :: "path \<Rightarrow> (path \<times> memFile) list \<Rightarrow> (path \<times> memFile) list" where
  "removeFile p fs = filter (\<lambda>(q, f). q \<noteq> p) fs"

definition writeFile :: "path \<Rightarrow> memFile \<Rightarrow> (path \<times> memFile) list \<Rightarrow> (path \<times> memFile) list" where
  "writeFile p f fs = removeFile p fs @ [(p, f)]"

section \<open>The store (src/core/mind.ts)\<close>

record config =
  memoryPath :: path
  maxContextObservations :: nat
  maxContextTokens :: int
  autoCompress :: bool
  debug :: bool

text \<open>
  \<open>DEFAULT_CONFIG\<close>. The option \<open>minConfidence\<close> (0.6) is read nowhere in the program
  and is left out.
\<close>

definition DEFAULT_CONFIG :: config where
  "DEFAULT_CONFIG =
     \<lparr>memoryPath = str ''.claude/mind.mv2'', maxContextObservations = 20,
      maxContextTokens = 2000, autoCompress = True, debug = False\<rparr>"

record configOverrides =
  ov_memoryPath :: "path option"
  ov_maxContextObservations :: "nat option"
  ov_maxContextTokens :: "int option"
  ov_autoCompress :: "bool option"
  ov_debug :: "bool option"

definition noOverrides :: configOverrides where
  "noOverrides =
     \<lparr>ov_memoryPath = None, ov_maxContextObservations = None, ov_maxContextTokens = None,
      ov_autoCompress = None, ov_debug = None\<rparr>"

text \<open>\<open>{ ...DEFAULT_CONFIG, ...configOverrides }\<close>.\<close>

definition mergeConfig :: "configOverrides \<Rightarrow> config" where
  "mergeConfig ov =
     \<lparr>memoryPath = (case ov_memoryPath ov of Some v \<Rightarrow> v | None \<Rightarrow> memoryPath DEFAULT_CONFIG),
      maxContextObservations =
        (case ov_maxContextObservations ov of Some v \<Rightarrow> v
         | None \<Rightarrow> maxContextObservations DEFAULT_CONFIG),
      maxContextTokens =
        (case ov_maxContextTokens ov of Some v \<Rightarrow> v | None \<Rightarrow> maxContextTokens DEFAULT_CONFIG),
      autoCompress = (case ov_autoCompress ov of Some v \<Rightarrow> v | None \<Rightarrow> autoCompress DEFAULT_CONFIG),
      debug = (case ov_debug ov of Some v \<Rightarrow> v | None \<Rightarrow> debug DEFAULT_CONFIG)\<rparr>"

text \<open>
  A \<open>Mind\<close> object. The engine's handle \<open>memvid\<close> is identified with the path of the file
  it was opened or created on.
\<close>

record mind =
  memvid :: path
  mindConfig :: config
  sessionId :: jsstring
  initialized :: bool

text \<open>
  The steps of the lock manager (the lock obtained, the critical section entered, the
  lock released), the calls into the storage engine and the files renamed and deleted are
  logged in the order in which they happen.
\<close>

datatype engineOp =
  OpCreate | OpUse | OpPut putFrame | OpFind jsstring nat | OpAsk jsstring
  | OpTimeline nat bool | OpStats

datatype event =
  Acquired path | Entered path | Released path | EngineCall path engineOp
  | Renamed path path | Unlinked path

text \<open>
  The state the program runs in: the files, the locks this process holds, the log, the
  clock behind \<open>Date.now()\<close>, the working directory, the environment variable
  \<open>CLAUDE_PROJECT_DIR\<close> (\<open>None\<close> when unset or empty) and the module variable
  \<open>mindInstance\<close>.
\<close>

record world =
  files :: "(path \<times> memFile) list"
  held :: "path list"
  events :: "event list"
  clock :: nat
  cwd :: path
  projectDirEnv :: "path option"
  mindInstance :: "mind option"

text \<open>
  What the program cannot decide itself: whether a system call or a call of the engine
  succeeds, the random identifiers, and what the engine's queries return. Each answer may
  depend on the state in which the call is made. \<open>lockOk\<close> says that
  \<open>lockfile.lock\<close> obtains the lock within its retries; \<open>statsResult\<close> gives
  \<open>frame_count\<close> and \<open>size_bytes\<close>; \<open>isoDate\<close> is the date part of
  \<open>new Date().toISOString()\<close> and \<open>jsonStringify\<close> is \<open>JSON.stringify(_, null, 2)\<close>.
  The engine keeps timestamps as numbers and labels as strings.
\<close>

record engineFrame =
  frame_id :: jsstring
  fr_timestamp :: "nat option"
  fr_label :: "jsstring option"
  fr_title :: "jsstring option"
  fr_text :: "jsstring option"
  fr_preview :: "jsstring option"
  fr_snippet :: "jsstring option"
  fr_score :: "json option"
  fr_metadata :: "(jsstring \<times> json) list option"

datatype timeline = TimelineArray "engineFrame list" | TimelineObject "engineFrame list option"

record env =
  sdkLoads :: "world \<Rightarrow> bool"
  mkdirOk :: "world \<Rightarrow> path \<Rightarrow> bool"
  touchOk :: "world \<Rightarrow> path \<Rightarrow> bool"
  lockOk :: "world \<Rightarrow> path \<Rightarrow> bool"
  renameOk :: "world \<Rightarrow> path \<Rightarrow> path \<Rightarrow> bool"
  unlinkOk :: "world \<Rightarrow> path \<Rightarrow> bool"
  readdirOk :: "world \<Rightarrow> path \<Rightarrow> bool"
  createOk :: "world \<Rightarrow> path \<Rightarrow> bool"
  freshSize :: nat
  randomHex :: "world \<Rightarrow> jsstring"
  putResult :: "world \<Rightarrow> path \<Rightarrow> putFrame \<Rightarrow> jsError + jsstring"
  findResult :: "world \<Rightarrow> path \<Rightarrow> jsstring \<Rightarrow> nat \<Rightarrow> jsError + engineFrame list option"
  askResult :: "world \<Rightarrow> path \<Rightarrow> jsstring \<Rightarrow> jsError + jsstring option"
  timelineResult :: "world \<Rightarrow> path \<Rightarrow> nat \<Rightarrow> bool \<Rightarrow> jsError + timeline"
  statsResult :: "world \<Rightarrow> path \<Rightarrow> jsError + (nat option \<times> nat option)"
  isoDate :: "world \<Rightarrow> jsstring"
  jsonStringify :: "(jsstring \<times> json) list \<Rightarrow> jsstring"

subsection \<open>Lock manager\<close>

definition logEvent :: "event \<Rightarrow> world \<Rightarrow> world" where
  "logEvent e w = w\<lparr>events := events w @ [e]\<rparr>"

text \<open>\<open>open(lockPath, "a")\<close> and \<open>close\<close>: the file is created when it is not there.\<close>

definition touch :: "path \<Rightarrow> world \<Rightarrow> world" where
  "touch p w =
     (case fileAt (files w) p of
        Some _ \<Rightarrow> w
      | None \<Rightarrow> w\<lparr>files := files w @ [(p, \<lparr>fsize = 0, openError = None, stored = []\<rparr>)]\<rparr>)"

text \<open>
  \<open>withMemvidLock\<close>. A failing \<open>mkdir\<close>, \<open>open\<close> or \<open>lockfile.lock\<close> rejects before the
  critical section is entered. Once the lock is held the critical section \<open>fn\<close> is
  called, and \<open>release\<close> runs in the \<open>finally\<close> block whether \<open>fn\<close> returned or threw;
  \<open>release\<close> itself is taken to succeed.
\<close>

definition withMemvidLock ::
  "env \<Rightarrow> path \<Rightarrow> (world \<Rightarrow> (jsError + 'a) \<times> world) \<Rightarrow> world \<Rightarrow> (jsError + 'a) \<times> world" where
  "withMemvidLock en lockPath fn w =
     (if \<not> mkdirOk en w (dirname lockPath) then (Inl FsFailed, w)
      else if \<not> touchOk en w lockPath then (Inl FsFailed, w)
      else
        (let w1 = touch lockPath w in
         if \<not> lockOk en w1 lockPath then (Inl LockFailed, w1)
         else
           (let w2 = logEvent (Acquired lockPath) (w1\<lparr>held := lockPath # held w1\<rparr>);
                (r, w3) = fn (logEvent (Entered lockPath) w2)
            in (r, logEvent (Released lockPath) (w3\<lparr>held := remove1 lockPath (held w3)\<rparr>)))))"

subsection \<open>Backup pruning\<close>

text \<open>
  \<open>s.replace(".", "\\.")\<close> with a string pattern replaces the first occurrence only.
\<close>

fun replaceFirstDot :: "jsstring \<Rightarrow> jsstring" where
  "replaceFirstDot [] = []"
| "replaceFirstDot (c # cs) = (if c = 46 then [92, 46] @ cs else c # replaceFirstDot cs)"

text \<open>The source text of \<open>backupPattern\<close>: \<^verbatim>\<open>^<name>\.backup-\d+$\<close>.\<close>

definition backupPatternSource :: "jsstring \<Rightarrow> jsstring" where
  "backupPatternSource baseName =
     str ''^'' @ replaceFirstDot baseName @ [92] @ str ''.backup-'' @ [92] @ str ''d+$''"

text \<open>
  \<open>parseInt(s, 10)\<close> on the text after the last hyphen of a file name: leading white space
  and a plus sign are skipped and the digits that follow are read. The result is exact
  below \<open>2^53\<close>. Without a digit the result is \<open>NaN\<close>, every comparison of the sort then
  yields \<open>NaN\<close> and the order is the sort's own; the model reads \<open>0\<close> there. A name that
  matches a pattern ending in \<^verbatim>\<open>-\d+$\<close> ends in digits.
\<close>

definition isDigit :: "nat \<Rightarrow> bool" where
  "isDigit c = (48 \<le> c \<and> c \<le> 57)"

definition parseInt10 :: "jsstring \<Rightarrow> nat" where
  "parseInt10 s =
     (let t = dropWhile isSpaceUnit s;
          u = (case t of [] \<Rightarrow> [] | c # cs \<Rightarrow> if c = 43 then cs else t)
      in fold (\<lambda>c a. 10 * a + (c - 48)) (takeWhile isDigit u) 0)"

record backup =
  b_name :: jsstring
  b_path :: path
  b_time :: nat

text \<open>\<open>readdirSync(dir)\<close>: the names of the files whose directory is \<open>dir\<close>.\<close>

definition readdir :: "world \<Rightarrow> path \<Rightarrow> jsstring list" where
  "readdir w dir = map (\<lambda>(p, f). pop (splitOn slash p)) (filter (\<lambda>(p, f). dirname p = dir) (files w))"

definition unlink :: "path \<Rightarrow> world \<Rightarrow> world" where
  "unlink p w = logEvent (Unlinked p) (w\<lparr>files := removeFile p (files w)\<rparr>)"

definition rename :: "path \<Rightarrow> path \<Rightarrow> world \<Rightarrow> world" where
  "rename a b w =
     (case fileAt (files w) a of
        None \<Rightarrow> w
      | Some f \<Rightarrow> logEvent (Renamed a b) (w\<lparr>files := writeFile b f (removeFile a (files w))\<rparr>))"

text \<open>
  \<open>pruneBackups\<close>. Everything is inside a \<open>try\<close> whose \<open>catch\<close> is empty, and so is each
  \<open>unlinkSync\<close>. The sort is stable and descending in \<open>time\<close>.
\<close>

definition pruneStep :: "env \<Rightarrow> backup \<Rightarrow> world \<Rightarrow> world" where
  "pruneStep en b w = (if unlinkOk en w (b_path b) then unlink (b_path b) w else w)"

definition pruneBackups :: "runtime \<Rightarrow> env \<Rightarrow> path \<Rightarrow> nat \<Rightarrow> world \<Rightarrow> world" where
  "pruneBackups rt en memPath keepCount w =
     (let dir = dirname memPath;
          baseName = orElse (pop (splitOn slash memPath)) (str ''mind.mv2'')
      in case regexTest rt (backupPatternSource baseName) of
           None \<Rightarrow> w
         | Some test \<Rightarrow>
             if \<not> readdirOk en w dir then w
             else
               (let backups =
                      sort_key (\<lambda>b. - int (b_time b))
                        (map (\<lambda>f. \<lparr>b_name = f, b_path = resolve (cwd w) [dir, f],
                                   b_time = parseInt10 (orElse (pop (splitOn 45 f)) (str ''0''))\<rparr>)
                           (filter test (readdir w dir)))
                in fold (pruneStep en) (drop keepCount backups) w))"

subsection \<open>Opening the store\<close>

definition freshStore :: "env \<Rightarrow> memFile" where
  "freshStore en = \<lparr>fsize = freshSize en, openError = None, stored = []\<rparr>"

text \<open>\<open>create(path, "basic")\<close>: a fresh, empty store at the path, or an error.\<close>

definition engineCreate :: "env \<Rightarrow> path \<Rightarrow> world \<Rightarrow> (jsError + path) \<times> world" where
  "engineCreate en p w =
     (let w0 = logEvent (EngineCall p OpCreate) w in
      if createOk en w p then (Inr p, w0\<lparr>files := writeFile p (freshStore en) (files w0)\<rparr>)
      else (Inl CreateFailed, w0))"

text \<open>The corruption signatures, matched in the message of the error \<open>use\<close> threw.\<close>

definition isCorruptionMessage :: "jsstring \<Rightarrow> bool" where
  "isCorruptionMessage errorMessage =
     (jsIncludes errorMessage (str ''Deserialization'')
      \<or> jsIncludes errorMessage (str ''UnexpectedVariant'')
      \<or> jsIncludes errorMessage (str ''Invalid'')
      \<or> jsIncludes errorMessage (str ''corrupt'')
      \<or> jsIncludes errorMessage (str ''validation failed'')
      \<or> jsIncludes errorMessage (str ''unable to recover'')
      \<or> jsIncludes errorMessage (str ''table of contents''))"

definition MAX_FILE_SIZE_MB :: nat where
  "MAX_FILE_SIZE_MB = 100"

definition backupPathOf :: "path \<Rightarrow> world \<Rightarrow> path" where
  "backupPathOf memPath w = memPath @ str ''.backup-'' @ numToString (clock w)"

text \<open>
  The critical section of \<open>Mind.open\<close>; its value is the engine's handle. The size in
  megabytes is \<open>fileSize / (1024 * 1024)\<close>, a division by a power of two, so the test
  \<open>fileSizeMB > 100\<close> is a test on the number of bytes.
\<close>

definition openLocked :: "env \<Rightarrow> path \<Rightarrow> world \<Rightarrow> (jsError + path) \<times> world" where
  "openLocked en memPath w =
     (case fileAt (files w) memPath of
        None \<Rightarrow> engineCreate en memPath w
      | Some f \<Rightarrow>
          if fsize f > MAX_FILE_SIZE_MB * (1024 * 1024) then
            (let backupPath = backupPathOf memPath w;
                 w1 = (if renameOk en w memPath backupPath then rename memPath backupPath w
                       else w)
             in engineCreate en memPath w1)
          else
            (let w0 = logEvent (EngineCall memPath OpUse) w in
             case openError f of
               None \<Rightarrow> (Inr memPath, w0)
             | Some errorMessage \<Rightarrow>
                 if isCorruptionMessage errorMessage then
                   (let backupPath = backupPathOf memPath w0;
                        w1 = (if renameOk en w0 memPath backupPath
                              then rename memPath backupPath w0
                              else if unlinkOk en w0 memPath then unlink memPath w0
                              else w0)
                    in engineCreate en memPath w1)
                 else (Inl (EngineError errorMessage), w0)))"

definition projectDir :: "world \<Rightarrow> path" where
  "projectDir w = (case projectDirEnv w of Some d \<Rightarrow> d | None \<Rightarrow> cwd w)"

definition openMemoryPath :: "configOverrides \<Rightarrow> world \<Rightarrow> path" where
  "openMemoryPath ov w = resolve (cwd w) [projectDir w, memoryPath (mergeConfig ov)]"

definition Mind_open ::
  "runtime \<Rightarrow> env \<Rightarrow> configOverrides \<Rightarrow> world \<Rightarrow> (jsError + mind) \<times> world" where
  "Mind_open rt en ov w =
     (if \<not> sdkLoads en w then (Inl SdkFailed, w)
      else
        (let config = mergeConfig ov;
             memPath = openMemoryPath ov w;
             memoryDir = dirname memPath
         in if \<not> mkdirOk en w memoryDir then (Inl FsFailed, w)
            else
              (let lockPath = memPath @ str ''.lock'' in
               case withMemvidLock en lockPath (openLocked en memPath) w of
                 (Inl e, w1) \<Rightarrow> (Inl e, w1)
               | (Inr handle, w1) \<Rightarrow>
                   (Inr \<lparr>memvid = handle, mindConfig = config, sessionId = randomHex en w1,
                         initialized = True\<rparr>,
                    pruneBackups rt en memPath 3 w1))))"

definition getMemoryPath :: "mind \<Rightarrow> world \<Rightarrow> path" where
  "getMemoryPath m w = resolve (cwd w) [cwd w, memoryPath (mindConfig m)]"

definition withLock ::
  "env \<Rightarrow> mind \<Rightarrow> (world \<Rightarrow> (jsError + 'a) \<times> world) \<Rightarrow> world \<Rightarrow> (jsError + 'a) \<times> world" where
  "withLock en m fn w = withMemvidLock en (getMemoryPath m w @ str ''.lock'') fn w"

text \<open>
  \<open>getMind\<close> and the module variable \<open>mindInstance\<close>. \<open>getMind\<close> is an asynchronous
  function. A call tests \<open>mindInstance\<close> at once: when an instance is stored the call
  returns it, and otherwise the call starts \<open>Mind.open\<close> and is suspended at the
  \<open>await\<close> until \<open>Mind.open\<close> has settled. Other calls of \<open>getMind\<close> may start and
  resume in the meantime. When the call resumes it assigns the opened instance to
  \<open>mindInstance\<close>, whatever the variable holds by then, and returns it; when
  \<open>Mind.open\<close> has thrown, the call throws and assigns nothing. \<open>getMindTest\<close> is the
  first step and \<open>getMindResume\<close> the second, in which the work of \<open>Mind.open\<close> is
  taken to happen.
\<close>

definition getMindTest :: "world \<Rightarrow> mind option" where
  "getMindTest w = mindInstance w"

definition getMindResume ::
  "runtime \<Rightarrow> env \<Rightarrow> configOverrides \<Rightarrow> world \<Rightarrow> (jsError + mind) \<times> world" where
  "getMindResume rt en ov w =
     (case Mind_open rt en ov w of
        (Inl e, w1) \<Rightarrow> (Inl e, w1)
      | (Inr m, w1) \<Rightarrow> (Inr m, w1\<lparr>mindInstance := Some m\<rparr>))"







text \<open>A call of \<open>getMind\<close> that no other call overlaps: both steps, one after the other.\<close>

definition getMind ::
  "runtime \<Rightarrow> env \<Rightarrow> configOverrides \<Rightarrow> world \<Rightarrow> (jsError + mind) \<times> world" where
  "getMind rt en ov w =
     (case getMindTest w of
        Some m \<Rightarrow> (Inr m, w)
      | None \<Rightarrow> getMindResume rt en ov w)"

subsection \<open>Operations of the store\<close>

text \<open>Object spread: a later property replaces an earlier one with the same key.\<close>

definition setProp :: "jsstring \<Rightarrow> json \<Rightarrow> (jsstring \<times> json) list \<Rightarrow> (jsstring \<times> json) list" where
  "setProp k v props =
     (case map_of props k of
        None \<Rightarrow> props @ [(k, v)]
      | Some _ \<Rightarrow> map (\<lambda>(k', v'). if k' = k then (k', v) else (k', v')) props)"

definition mergeProps ::
  "(jsstring \<times> json) list \<Rightarrow> (jsstring \<times> json) list \<Rightarrow> (jsstring \<times> json) list" where
  "mergeProps a b = fold (\<lambda>(k, v). setProp k v) b a"

record rememberInput =
  r_type :: jsstring
  r_summary :: jsstring
  r_content :: jsstring
  r_tool :: "jsstring option"
  r_metadata :: "(jsstring \<times> json) list"

text \<open>
  The frame \<open>remember\<close> hands to \<open>put\<close>. A property whose value is \<open>undefined\<close> (the tool,
  when there is none) is left out of the metadata.
\<close>

definition rememberFrame :: "env \<Rightarrow> mind \<Rightarrow> rememberInput \<Rightarrow> world \<Rightarrow> putFrame" where
  "rememberFrame en m input w =
     (let observationMetadata =
            mergeProps (r_metadata input) [(str ''sessionId'', JString (sessionId m))]
      in \<lparr>p_title = str ''['' @ r_type input @ str ''] '' @ r_summary input,
          p_label = r_type input,
          p_text = r_content input,
          p_metadata =
            mergeProps
              ([(str ''observationId'', JString (randomHex en w)),
                (str ''timestamp'', JNumber (int (clock w)))]
               @ (case r_tool input of None \<Rightarrow> [] | Some t \<Rightarrow> [(str ''tool'', JString t)])
               @ [(str ''sessionId'', JString (sessionId m))])
              observationMetadata,
          p_tags = filter (\<lambda>t. t \<noteq> [])
                     ([r_type input] @ (case r_tool input of None \<Rightarrow> [] | Some t \<Rightarrow> [t]))\<rparr>)"

definition appendFrame :: "path \<Rightarrow> putFrame \<Rightarrow> (path \<times> memFile) list \<Rightarrow> (path \<times> memFile) list" where
  "appendFrame p fr fs = map (\<lambda>(q, f). if q = p then (q, f\<lparr>stored := stored f @ [fr]\<rparr>) else (q, f)) fs"

text \<open>\<open>memvid.put\<close>: the call is logged; when it succeeds the frame is in the file.\<close>

definition enginePut :: "env \<Rightarrow> path \<Rightarrow> putFrame \<Rightarrow> world \<Rightarrow> (jsError + jsstring) \<times> world" where
  "enginePut en p fr w =
     (let w0 = logEvent (EngineCall p (OpPut fr)) w in
      case putResult en w p fr of
        Inl e \<Rightarrow> (Inl e, w0)
      | Inr frameId \<Rightarrow> (Inr frameId, w0\<lparr>files := appendFrame p fr (files w0)\<rparr>))"

definition remember :: "env \<Rightarrow> mind \<Rightarrow> rememberInput \<Rightarrow> world \<Rightarrow> (jsError + jsstring) \<times> world" where
  "remember en m input w =
     withLock en m (enginePut en (memvid m) (rememberFrame en m input w)) w"

record observation =
  o_id :: json
  o_timestamp :: int
  o_type :: "jsstring option"
  o_tool :: "json option"
  o_summary :: jsstring
  o_content :: jsstring
  o_metadata :: "(jsstring \<times> json) list option"

record searchResult =
  sr_observation :: observation
  sr_score :: json
  sr_snippet :: jsstring

text \<open>\<open>frame.metadata?.key\<close>.\<close>

definition metaProp :: "engineFrame \<Rightarrow> string \<Rightarrow> json option" where
  "metaProp fr k = (case fr_metadata fr of None \<Rightarrow> None | Some props \<Rightarrow> map_of props (str k))"

text \<open>\<open>a || b\<close> where \<open>a\<close> may be \<open>undefined\<close> and \<open>b\<close> is a value.\<close>

definition orValue :: "json option \<Rightarrow> json \<Rightarrow> json" where
  "orValue a b = (case a of None \<Rightarrow> b | Some v \<Rightarrow> if truthy v then v else b)"

text \<open>
  \<open>title.replace(/^\[.*?\]\s*/, "")\<close>: a leading bracketed tag, up to the first closing
  bracket and with no line terminator inside, is removed together with the white space
  after it.
\<close>

definition isLineTerminator :: "nat \<Rightarrow> bool" where
  "isLineTerminator c = (c = 10 \<or> c = 13 \<or> c = 0x2028 \<or> c = 0x2029)"

definition stripTag :: "jsstring \<Rightarrow> jsstring" where
  "stripTag t =
     (case t of
        [] \<Rightarrow> []
      | c # cs \<Rightarrow>
          (let inside = takeWhile (\<lambda>x. x \<noteq> 93) cs in
           if c = 91 \<and> length inside < length cs \<and> \<not> list_ex isLineTerminator inside
           then dropWhile isSpaceUnit (drop (length inside + 1) cs)
           else t))"

definition titleSummary :: "engineFrame \<Rightarrow> jsstring" where
  "titleSummary fr = (case fr_title fr of None \<Rightarrow> [] | Some t \<Rightarrow> stripTag t)"

definition toSearchResult :: "engineFrame \<Rightarrow> searchResult" where
  "toSearchResult fr =
     \<lparr>sr_observation =
        \<lparr>o_id = orValue (metaProp fr ''observationId'') (JString (frame_id fr)),
         o_timestamp = (case metaProp fr ''timestamp'' of Some (JNumber n) \<Rightarrow> n | _ \<Rightarrow> 0),
         o_type = fr_label fr,
         o_tool = metaProp fr ''tool'',
         o_summary = titleSummary fr,
         o_content = orDefault (fr_text fr) [],
         o_metadata = fr_metadata fr\<rparr>,
      sr_score = orValue (fr_score fr) (JNumber 0),
      sr_snippet =
        orDefault (fr_snippet fr)
          (orDefault (case fr_text fr of None \<Rightarrow> None | Some t \<Rightarrow> Some (take 200 t)) [])\<rparr>"

definition searchUnlocked ::
  "env \<Rightarrow> mind \<Rightarrow> jsstring \<Rightarrow> nat \<Rightarrow> world \<Rightarrow> (jsError + searchResult list) \<times> world" where
  "searchUnlocked en m query limit w =
     (let w0 = logEvent (EngineCall (memvid m) (OpFind query limit)) w in
      case findResult en w (memvid m) query limit of
        Inl e \<Rightarrow> (Inl e, w0)
      | Inr results \<Rightarrow>
          (Inr (map toSearchResult (case results of None \<Rightarrow> [] | Some fs \<Rightarrow> fs)), w0))"

definition search ::
  "env \<Rightarrow> mind \<Rightarrow> jsstring \<Rightarrow> nat \<Rightarrow> world \<Rightarrow> (jsError + searchResult list) \<times> world" where
  "search en m query limit w = withLock en m (searchUnlocked en m query limit) w"

definition askLocked :: "env \<Rightarrow> mind \<Rightarrow> jsstring \<Rightarrow> world \<Rightarrow> (jsError + jsstring) \<times> world" where
  "askLocked en m question w =
     (let w0 = logEvent (EngineCall (memvid m) (OpAsk question)) w in
      case askResult en w (memvid m) question of
        Inl e \<Rightarrow> (Inl e, w0)
      | Inr answer \<Rightarrow> (Inr (orDefault answer (str ''No relevant memories found.'')), w0))"

definition ask :: "env \<Rightarrow> mind \<Rightarrow> jsstring \<Rightarrow> world \<Rightarrow> (jsError + jsstring) \<times> world" where
  "ask en m question w = withLock en m (askLocked en m question) w"

record contextResult =
  recentObservations :: "observation list"
  relevantMemories :: "observation list"
  sessionSummaries :: "jsstring list"
  tokenCount :: int

definition frameTimestamp :: "engineFrame \<Rightarrow> int" where
  "frameTimestamp fr =
     (case metaProp fr ''timestamp'' of
        Some (JNumber n) \<Rightarrow>
          if n \<noteq> 0 then n else (case fr_timestamp fr of Some t \<Rightarrow> int t | None \<Rightarrow> 0)
      | _ \<Rightarrow> (case fr_timestamp fr of Some t \<Rightarrow> int t | None \<Rightarrow> 0))"

definition toObservation :: "engineFrame \<Rightarrow> observation" where
  "toObservation fr =
     (let ts = frameTimestamp fr in
      \<lparr>o_id = orValue (metaProp fr ''observationId'') (JString (frame_id fr)),
       o_timestamp = (if ts > 0 \<and> ts < 4102444800 then ts * 1000 else ts),
       o_type =
         Some (orDefault (fr_label fr)
                 (case metaProp fr ''type'' of
                    Some (JString t) \<Rightarrow> orElse t (str ''observation'')
                  | _ \<Rightarrow> str ''observation'')),
       o_tool = metaProp fr ''tool'',
       o_summary =
         orElse (titleSummary fr)
           (orDefault (case fr_preview fr of None \<Rightarrow> None | Some v \<Rightarrow> Some (take 100 v)) []),
       o_content = orDefault (fr_text fr) (orDefault (fr_preview fr) []),
       o_metadata = fr_metadata fr\<rparr>)"

text \<open>The text whose tokens are estimated: \<open>`[${obs.type}] ${obs.summary}`\<close>.\<close>

definition tokenText :: "observation \<Rightarrow> jsstring" where
  "tokenText obs =
     str ''['' @ (case o_type obs of None \<Rightarrow> str ''undefined'' | Some t \<Rightarrow> t) @ str ''] ''
     @ o_summary obs"

text \<open>The \<open>for\<close> loop of \<open>getContext\<close>, with its \<open>break\<close>.\<close>

fun countTokens :: "int \<Rightarrow> observation list \<Rightarrow> int \<Rightarrow> int" where
  "countTokens maxTokens [] count = count"
| "countTokens maxTokens (obs # rest) count =
     (let tokens = int (estimateTokens (tokenText obs)) in
      if count + tokens > maxTokens then count
      else countTokens maxTokens rest (count + tokens))"

definition timelineFrames :: "timeline \<Rightarrow> engineFrame list" where
  "timelineFrames t =
     (case t of TimelineArray fs \<Rightarrow> fs
      | TimelineObject None \<Rightarrow> []
      | TimelineObject (Some fs) \<Rightarrow> fs)"

definition engineTimeline ::
  "env \<Rightarrow> mind \<Rightarrow> nat \<Rightarrow> bool \<Rightarrow> world \<Rightarrow> (jsError + engineFrame list) \<times> world" where
  "engineTimeline en m limit reverse w =
     (let w0 = logEvent (EngineCall (memvid m) (OpTimeline limit reverse)) w in
      case timelineResult en w (memvid m) limit reverse of
        Inl e \<Rightarrow> (Inl e, w0)
      | Inr t \<Rightarrow> (Inr (timelineFrames t), w0))"

definition getContextLocked ::
  "env \<Rightarrow> mind \<Rightarrow> jsstring option \<Rightarrow> world \<Rightarrow> (jsError + contextResult) \<times> world" where
  "getContextLocked en m query w =
     (case engineTimeline en m (maxContextObservations (mindConfig m)) True w of
        (Inl e, w1) \<Rightarrow> (Inl e, w1)
      | (Inr frames, w1) \<Rightarrow>
          (let recent = map toObservation frames in
           case (if orDefault query [] \<noteq> []
                 then (case searchUnlocked en m (orDefault query []) 10 w1 of
                         (Inl e, w2) \<Rightarrow> (Inl e, w2)
                       | (Inr results, w2) \<Rightarrow> (Inr (map sr_observation results), w2))
                 else (Inr [], w1))
           of (Inl e, w2) \<Rightarrow> (Inl e, w2)
            | (Inr relevant, w2) \<Rightarrow>
                (Inr \<lparr>recentObservations = recent, relevantMemories = relevant,
                      sessionSummaries = [],
                      tokenCount = countTokens (maxContextTokens (mindConfig m)) recent 0\<rparr>,
                 w2)))"

definition getContext ::
  "env \<Rightarrow> mind \<Rightarrow> jsstring option \<Rightarrow> world \<Rightarrow> (jsError + contextResult) \<times> world" where
  "getContext en m query w = withLock en m (getContextLocked en m query) w"

record summaryInput =
  keyDecisions :: "jsstring list"
  filesModified :: "jsstring list"
  summaryText :: jsstring

definition sessionSummaryFrame :: "env \<Rightarrow> mind \<Rightarrow> summaryInput \<Rightarrow> world \<Rightarrow> putFrame" where
  "sessionSummaryFrame en m input w =
     (let sessionSummary =
            [(str ''id'', JString (sessionId m)),
             (str ''startTime'', JNumber (int (clock w) - 3600000)),
             (str ''endTime'', JNumber (int (clock w))),
             (str ''observationCount'', JNumber 0),
             (str ''keyDecisions'', JArray (map JString (keyDecisions input))),
             (str ''filesModified'', JArray (map JString (filesModified input))),
             (str ''summary'', JString (summaryText input))]
      in \<lparr>p_title = str ''Session Summary: '' @ isoDate en w,
          p_label = str ''session'',
          p_text = jsonStringify en sessionSummary,
          p_metadata = sessionSummary,
          p_tags = [str ''session'', str ''summary'']\<rparr>)"

text \<open>
  The summary object is built before the lock is taken, the title inside the critical
  section; the model reads the clock once, before.
\<close>

definition saveSessionSummary ::
  "env \<Rightarrow> mind \<Rightarrow> summaryInput \<Rightarrow> world \<Rightarrow> (jsError + jsstring) \<times> world" where
  "saveSessionSummary en m input w =
     withLock en m (enginePut en (memvid m) (sessionSummaryFrame en m input w)) w"

record statsOut =
  totalObservations :: nat
  totalSessions :: nat
  oldestMemory :: int
  newestMemory :: int
  fileSize :: nat

definition firstTimestamp :: "engineFrame list \<Rightarrow> int" where
  "firstTimestamp fs = (case fs of [] \<Rightarrow> 0 | fr # _ \<Rightarrow> frameTimestamp fr)"

definition statsLocked :: "env \<Rightarrow> mind \<Rightarrow> world \<Rightarrow> (jsError + statsOut) \<times> world" where
  "statsLocked en m w =
     (let w0 = logEvent (EngineCall (memvid m) OpStats) w in
      case statsResult en w (memvid m) of
        Inl e \<Rightarrow> (Inl e, w0)
      | Inr (frameCount, sizeBytes) \<Rightarrow>
          (case engineTimeline en m 1 False w0 of
             (Inl e, w1) \<Rightarrow> (Inl e, w1)
           | (Inr oldestFrames, w1) \<Rightarrow>
               (case engineTimeline en m 1 True w1 of
                  (Inl e, w2) \<Rightarrow> (Inl e, w2)
                | (Inr newestFrames, w2) \<Rightarrow>
                    (Inr \<lparr>totalObservations = (case frameCount of None \<Rightarrow> 0 | Some n \<Rightarrow> n),
                          totalSessions = 0,
                          oldestMemory = firstTimestamp oldestFrames,
                          newestMemory = firstTimestamp newestFrames,
                          fileSize = (case sizeBytes of None \<Rightarrow> 0 | Some n \<Rightarrow> n)\<rparr>,
                     w2))))"

definition stats :: "env \<Rightarrow> mind \<Rightarrow> world \<Rightarrow> (jsError + statsOut) \<times> world" where
  "stats en m w = withLock en m (statsLocked en m) w"

section \<open>The plugin's observation hook (src/hooks/opencode/index.ts)\<close>

definition OBSERVED_TOOLS :: "jsstring list" where
  "OBSERVED_TOOLS = map str [''Read'', ''Edit'', ''Write'', ''Bash'', ''Grep'', ''Glob'']"

text \<open>
  The tool's output is a string, or another value with the text that \<open>JSON.stringify\<close>
  or \<open>String\<close> makes of it (\<open>None\<close> when that throws or yields \<open>undefined\<close>, in which
  case the handler's \<open>catch\<close> ends the call).
\<close>

datatype hookOutput = OutString jsstring | OutOther "jsstring option"

definition outputStr :: "hookOutput \<Rightarrow> jsstring option" where
  "outputStr out = (case out of OutString s \<Rightarrow> Some s | OutOther t \<Rightarrow> t)"

text \<open>\<open>...metadata\<close>: the properties of the object, none when it is \<open>undefined\<close>.\<close>

definition toolInputProps :: "toolInput option \<Rightarrow> (jsstring \<times> json) list" where
  "toolInputProps metadata = (case metadata of None \<Rightarrow> [] | Some props \<Rightarrow> props)"

text \<open>
  The argument of \<open>mind.remember\<close> in \<open>tool.execute.after\<close>; \<open>Inl\<close> when building it
  throws.
\<close>

definition hookObservation ::
  "runtime \<Rightarrow> jsstring \<Rightarrow> jsstring \<Rightarrow> jsstring \<Rightarrow> toolInput option \<Rightarrow> jsError + rememberInput" where
  "hookObservation rt tool sessionID out metadata =
     (case compressToolOutput rt tool metadata out of
        Inl e \<Rightarrow> Inl e
      | Inr c \<Rightarrow>
          Inr \<lparr>r_type = typeName (classifyObservationType tool out),
               r_summary = str ''OpenCode '' @ tool @ str '' completed'',
               r_content = compressed c,
               r_tool = Some tool,
               r_metadata =
                 mergeProps [(str ''sessionId'', JString sessionID)] (toolInputProps metadata)\<rparr>)"

text \<open>
  \<open>tool.execute.after\<close>. It returns nothing; every error is caught and logged. The
  plugin's memory path is \<open>resolve(projectDir, ".claude/mind.mv2")\<close>. The handler is
  followed from its call to its end, with no other handler in between.
\<close>

definition toolExecuteAfter ::
  "runtime \<Rightarrow> env \<Rightarrow> path \<Rightarrow> jsstring \<Rightarrow> jsstring \<Rightarrow> hookOutput \<Rightarrow> toolInput option
   \<Rightarrow> world \<Rightarrow> world" where
  "toolExecuteAfter rt en memPath tool sessionID out metadata w =
     (if tool \<notin> set OBSERVED_TOOLS then w
      else
        (case getMind rt en (noOverrides\<lparr>ov_memoryPath := Some memPath\<rparr>) w of
           (Inl e, w1) \<Rightarrow> w1
         | (Inr m, w1) \<Rightarrow>
             (case outputStr out of
                None \<Rightarrow> w1
              | Some s \<Rightarrow>
                  (case hookObservation rt tool sessionID s metadata of
                     Inl e \<Rightarrow> w1
                   | Inr input \<Rightarrow> snd (remember en m input w1)))))"

section \<open>Concrete states and the notions of the specification\<close>

text \<open>
  An environment in which every system call and every call of the engine succeeds and the
  store is empty, and a state with the working directory \<open>/work\<close>, the project root
  \<open>/proj\<close> and no file; used to evaluate the model on concrete inputs.
\<close>

definition sampleEnv :: env where
  "sampleEnv =
     \<lparr>sdkLoads = (\<lambda>w. True), mkdirOk = (\<lambda>w p. True), touchOk = (\<lambda>w p. True),
      lockOk = (\<lambda>w p. True), renameOk = (\<lambda>w a b. True), unlinkOk = (\<lambda>w p. True),
      readdirOk = (\<lambda>w p. True), createOk = (\<lambda>w p. True), freshSize = 4096,
      randomHex = (\<lambda>w. str ''00112233aabbccdd''),
      putResult = (\<lambda>w p fr. Inr (str ''1'')),
      findResult = (\<lambda>w p q k. Inr (Some [])),
      askResult = (\<lambda>w p q. Inr None),
      timelineResult = (\<lambda>w p k r. Inr (TimelineArray [])),
      statsResult = (\<lambda>w p. Inr (Some 0, Some 4096)),
      isoDate = (\<lambda>w. str ''2026-01-01''),
      jsonStringify = (\<lambda>props. str ''{}'')\<rparr>"

definition sampleWorld :: world where
  "sampleWorld =
     \<lparr>files = [], held = [], events = [], clock = 1767225600000, cwd = str ''/work'',
      projectDirEnv = Some (str ''/proj''), mindInstance = None\<rparr>"

definition sampleMind :: mind where
  "sampleMind =
     \<lparr>memvid = str ''/proj/.claude/mind.mv2'', mindConfig = DEFAULT_CONFIG,
      sessionId = str ''00112233aabbccdd'', initialized = True\<rparr>"

subsection \<open>Backup names, in the words of the specification\<close>

text \<open>A file name of the form \<open><basename>.backup-<digits>\<close>.\<close>

definition isBackupName :: "jsstring \<Rightarrow> jsstring \<Rightarrow> bool" where
  "isBackupName baseName f =
     (prefix (baseName @ str ''.backup-'') f
      \<and> drop (length baseName + 8) f \<noteq> []
      \<and> list_all isDigit (drop (length baseName + 8) f))"

subsection \<open>A concrete runtime\<close>

text \<open>
  The runtime used to evaluate the model on concrete inputs. None of them is read as
  source code, so no extractor's regular expression is run; \<open>JSON.parse\<close> is given at the
  one input that is a JSON text and throws on the others, none of which is one; and the
  backup pattern is given for the two file names that occur, \<open>mind.mv2\<close> and
  \<open>my.mind.mv2\<close>, in whose pattern the second dot is not escaped and matches any code
  unit.
\<close>

definition globJsonOutput :: jsstring where
  "globJsonOutput =
     str ''{'' @ [34] @ str ''filenames'' @ [34] @ str '':'' @ [34] @ replicate 3000 120 @ [34]
     @ str ''}''"

definition sampleRuntime :: runtime where
  "sampleRuntime =
     \<lparr>execAll = (\<lambda>r code. []),
      jsonParse = (\<lambda>s. if s = globJsonOutput
                         then Some (JObject [(str ''filenames'', JString (replicate 3000 120))])
                         else None),
      regexTest = (\<lambda>src.
        if src = backupPatternSource (str ''mind.mv2'')
          then Some (isBackupName (str ''mind.mv2''))
        else if src = backupPatternSource (str ''my.mind.mv2'')
          then Some (\<lambda>f. length f > 7 \<and> \<not> isLineTerminator (f ! 7)
                          \<and> isBackupName (str ''my.mind.mv2'') (f[7 := 46]))
        else None)\<rparr>"

definition sampleFrame :: "jsstring \<Rightarrow> jsstring \<Rightarrow> engineFrame" where
  "sampleFrame label title =
     \<lparr>frame_id = str ''f'', fr_timestamp = None, fr_label = Some label, fr_title = Some title,
      fr_text = None, fr_preview = None, fr_snippet = None, fr_score = None,
      fr_metadata = None\<rparr>"

text \<open>An engine whose timeline holds two observations of six estimated tokens each.\<close>

definition timelineEnv :: env where
  "timelineEnv =
     sampleEnv\<lparr>timelineResult := (\<lambda>w p k r. Inr (TimelineArray
        [sampleFrame (str ''problem'') (str ''[problem] build failed''),
         sampleFrame (str ''success'') (str ''[success] tests passed'')]))\<rparr>"

definition budgetMind :: "int \<Rightarrow> mind" where
  "budgetMind n = sampleMind\<lparr>mindConfig := DEFAULT_CONFIG\<lparr>maxContextTokens := n\<rparr>\<rparr>"

subsection \<open>Token accounting, in the words of the specification\<close>

text \<open>The estimated tokens of one observation.\<close>

definition obsTokens :: "observation \<Rightarrow> int" where
  "obsTokens obs = int (estimateTokens (tokenText obs))"

subsection \<open>The lock discipline, in the words of the specification\<close>

text \<open>
  The lock \<open>lockPath\<close> is obtained: its directory and the lock file can be made and
  \<open>lockfile.lock\<close> succeeds.
\<close>

definition acquires :: "env \<Rightarrow> path \<Rightarrow> world \<Rightarrow> bool" where
  "acquires en lockPath w =
     (mkdirOk en w (dirname lockPath) \<and> touchOk en w lockPath
      \<and> lockOk en (touch lockPath w) lockPath)"

text \<open>
  One run of a critical section \<open>fn\<close> from the state \<open>v\<close>: its result is \<open>r\<close> and
  \<open>calls\<close> is what it adds to the log.
\<close>

definition oneRun ::
  "(world \<Rightarrow> (jsError + 'a) \<times> world) \<Rightarrow> world \<Rightarrow> jsError + 'a \<Rightarrow> event list \<Rightarrow> bool" where
  "oneRun fn v r calls = (r = fst (fn v) \<and> events (snd (fn v)) = events v @ calls)"

text \<open>
  An operation with the result \<open>res\<close> ran the critical section \<open>fn\<close> under the lock
  \<open>lockPath\<close>. When the lock is not obtained, the operation fails and nothing is logged.
  When it is obtained, the log shows the lock obtained, the critical section entered,
  what exactly one run of the critical section logs, started in a state in which the
  lock is held, and the lock released; the operation returns or throws what that run
  returned or threw. In both cases the locks held afterwards are those held before.
\<close>

definition underLock ::
  "env \<Rightarrow> path \<Rightarrow> (world \<Rightarrow> (jsError + 'a) \<times> world) \<Rightarrow> world \<Rightarrow> (jsError + 'a) \<times> world
   \<Rightarrow> event list \<Rightarrow> bool" where
  "underLock en lockPath fn w res calls =
     (held (snd res) = held w
      \<and> (if acquires en lockPath w
          then (\<exists>v. lockPath \<in> set (held v)
                  \<and> events v = events w @ [Acquired lockPath, Entered lockPath]
                  \<and> oneRun fn v (fst res) calls
                  \<and> events (snd res) = events v @ calls @ [Released lockPath])
          else isl (fst res) \<and> events (snd res) = events w))"

text \<open>An environment in which no lock is obtained.\<close>

definition noLockEnv :: env where
  "noLockEnv = sampleEnv\<lparr>lockOk := (\<lambda>w p. False)\<rparr>"

text \<open>An engine whose \<open>put\<close> throws, and an observation to remember.\<close>

definition failingPutEnv :: env where
  "failingPutEnv = sampleEnv\<lparr>putResult := (\<lambda>w p fr. Inl (EngineError (str ''disk full'')))\<rparr>"

definition noteInput :: rememberInput where
  "noteInput =
     \<lparr>r_type = str ''discovery'', r_summary = str ''note'', r_content = str ''text'',
      r_tool = None, r_metadata = []\<rparr>"

subsection \<open>Recovery and persisted content, in the words of the specification\<close>

text \<open>
  The state in which a critical section starts once the lock \<open>lockPath\<close> is held, and the
  state after the release.
\<close>

definition lockedWorld :: "path \<Rightarrow> world \<Rightarrow> world" where
  "lockedWorld lockPath w =
     logEvent (Entered lockPath)
       (logEvent (Acquired lockPath) ((touch lockPath w)\<lparr>held := lockPath # held (touch lockPath w)\<rparr>))"

definition unlockedWorld :: "path \<Rightarrow> world \<Rightarrow> world" where
  "unlockedWorld lp v = logEvent (Released lp) (v\<lparr>held := remove1 lp (held v)\<rparr>)"


text \<open>The contents handed to the engine's \<open>put\<close>, in the order of the log.\<close>

fun putText :: "event \<Rightarrow> jsstring option" where
  "putText (EngineCall p (OpPut fr)) = Some (p_text fr)"
| "putText _ = None"

definition putTexts :: "event list \<Rightarrow> jsstring list" where
  "putTexts evs = List.map_filter putText evs"

text \<open>
  The content the hook persists for a tool output: the output itself up to the
  compression threshold, a text within the compression target above it.
\<close>

definition hookContent :: "hookOutput \<Rightarrow> jsstring \<Rightarrow> bool" where
  "hookContent out t =
     (case outputStr out of
        None \<Rightarrow> False
      | Some s \<Rightarrow> (if length s \<le> 3000 then t = s else length t \<le> 2000))"

text \<open>
  A store file of garbage on which the engine reports a deserialization error, a state
  that holds it at the default memory path, and a state with the store \<open>my.mind.mv2\<close>,
  three backups of it and three backups of a neighbouring store \<open>my.mind-mv2\<close>.
\<close>

definition garbageFile :: memFile where
  "garbageFile =
     \<lparr>fsize = 1024, openError = Some (str ''Deserialization error: unexpected variant''),
      stored = []\<rparr>"


definition goodFile :: memFile where
  "goodFile = \<lparr>fsize = 4096, openError = None, stored = []\<rparr>"

definition pruneWorld :: world where
  "pruneWorld = sampleWorld\<lparr>files :=
     [(str ''/proj/.claude/my.mind.mv2'', goodFile),
      (str ''/proj/.claude/my.mind.mv2.backup-1700000000001'', garbageFile),
      (str ''/proj/.claude/my.mind.mv2.backup-1700000000002'', garbageFile),
      (str ''/proj/.claude/my.mind.mv2.backup-1700000000003'', garbageFile),
      (str ''/proj/.claude/my.mind-mv2.backup-1700000000004'', garbageFile),
      (str ''/proj/.claude/my.mind-mv2.backup-1700000000005'', garbageFile),
      (str ''/proj/.claude/my.mind-mv2.backup-1700000000006'', garbageFile)]\<rparr>"

definition myMindOverrides :: configOverrides where
  "myMindOverrides = noOverrides\<lparr>ov_memoryPath := Some (str ''.claude/my.mind.mv2'')\<rparr>"

definition pluginPath :: path where
  "pluginPath = str ''/proj/.claude/mind.mv2''"

subsection \<open>The engine calls of the critical sections, and the calls of \<open>getMind\<close>\<close>

text \<open>
  What one run of the critical section of \<open>getContext\<close> and of \<open>stats\<close> logs when it
  starts in the state \<open>v\<close>.
\<close>

definition contextCalls :: "env \<Rightarrow> mind \<Rightarrow> jsstring option \<Rightarrow> world \<Rightarrow> event list" where
  "contextCalls en m q v =
     EngineCall (memvid m) (OpTimeline (maxContextObservations (mindConfig m)) True)
     # (if isl (timelineResult en v (memvid m) (maxContextObservations (mindConfig m)) True)
          \<or> orDefault q [] = []
        then [] else [EngineCall (memvid m) (OpFind (orDefault q []) 10)])"

definition statsCalls :: "env \<Rightarrow> mind \<Rightarrow> world \<Rightarrow> event list" where
  "statsCalls en m v =
     EngineCall (memvid m) OpStats
     # (if isl (statsResult en v (memvid m)) then []
        else EngineCall (memvid m) (OpTimeline 1 False)
             # (if isl (timelineResult en (logEvent (EngineCall (memvid m) OpStats) v)
                          (memvid m) 1 False)
                then [] else [EngineCall (memvid m) (OpTimeline 1 True)]))"






section \<open>Properties of the string primitives\<close>

lemma length_str: "length (str s) = length s"
  by (simp add: str_def)

lemma jsIncludes_sublist: "jsIncludes s pat = sublist pat s"
  by (induction s) (auto simp: sublist_Cons_right)

lemma splitOn_nonempty [simp]: "splitOn sep xs \<noteq> []"
  by (induction xs) (auto split: list.splits)

lemma joinWith_Cons: "ys \<noteq> [] \<Longrightarrow> joinWith s (x # ys) = x @ s @ joinWith s ys"
  by (cases ys) auto

lemma joinWith_splitOn: "joinWith [sep] (splitOn sep xs) = xs"
proof (induction xs)
  case Nil
  show ?case by simp
next
  case (Cons c cs)
  show ?case
  proof (cases "c = sep")
    case True
    with Cons show ?thesis by (simp add: joinWith_Cons)
  next
    case False
    obtain l ls where "splitOn sep cs = l # ls"
      by (cases "splitOn sep cs") auto
    with Cons False show ?thesis by (cases ls) auto
  qed
qed

lemma splitOn_no_sep: "sep \<notin> set xs \<Longrightarrow> splitOn sep xs = [xs]"
  by (induction xs) auto

lemma splitOn_append_sep:
  "sep \<notin> set xs \<Longrightarrow> splitOn sep (xs @ sep # ys) = xs # splitOn sep ys"
  by (induction xs) auto

lemma splitOn_replicate: "splitOn sep (replicate n sep) = replicate (Suc n) []"
  by (induction n) auto

section \<open>Properties of the compression pipeline\<close>

lemma length_truncationMarker: "length truncationMarker = 17"
  by (simp add: truncationMarker_def str_def)

lemma length_truncateToTarget: "length (truncateToTarget t) \<le> 2000"
  by (simp add: truncateToTarget_def TARGET_COMPRESSED_SIZE_def length_truncationMarker)

lemma truncateToTarget_cut:
  "length t > 2000 \<Longrightarrow> truncateToTarget t = take 1980 t @ truncationMarker"
  by (simp add: truncateToTarget_def TARGET_COMPRESSED_SIZE_def)

lemma truncateToTarget_keep: "length t \<le> 2000 \<Longrightarrow> truncateToTarget t = t"
  by (simp add: truncateToTarget_def TARGET_COMPRESSED_SIZE_def)

lemma compressToolOutput_small:
  "length output \<le> 3000 \<Longrightarrow> compressToolOutput rt toolName toolInput output = Inr r
   \<Longrightarrow> compressed r = output"
  by (auto simp: compressToolOutput_def COMPRESSION_THRESHOLD_def)

text \<open>
  C3. An output of at most 3000 code units comes back unchanged, with
  \<open>wasCompressed = false\<close> and \<open>originalSize\<close> its length, for every tool name and
  every tool input; no summarizer runs, so nothing can throw.
\<close>

theorem compressToolOutput_at_most_threshold:
  "length output \<le> 3000 \<Longrightarrow>
   compressToolOutput rt toolName toolInput output =
     Inr \<lparr>compressed = output, wasCompressed = False, originalSize = length output\<rparr>"
  by (simp add: compressToolOutput_def COMPRESSION_THRESHOLD_def)

theorem compressToolOutput_at_most_threshold_witness:
  "length (replicate 3000 (120::nat)) \<le> 3000 \<and>
   compressToolOutput sampleRuntime (str ''Glob'') None (replicate 3000 120) =
     Inr \<lparr>compressed = replicate 3000 120, wasCompressed = False, originalSize = 3000\<rparr>"
  using compressToolOutput_at_most_threshold
    [of "replicate 3000 120" sampleRuntime "str ''Glob''" None]
  by simp

lemma compressToolOutput_above_threshold:
  assumes "length output > 3000"
    and "compressToolOutput rt toolName toolInput output = Inr r"
  shows "wasCompressed r \<and> originalSize r = length output \<and> length (compressed r) \<le> 2000
     \<and> (\<exists>summary. compressed r = truncateToTarget summary)"
  using assms unfolding compressToolOutput_def COMPRESSION_THRESHOLD_def Let_def
  by (auto simp: length_truncateToTarget split: sum.splits)

lemma length_globJsonOutput: "length globJsonOutput = 3016"
  by (simp add: globJsonOutput_def str_def)

text \<open>
  C2. The claim promises a result for every output above the threshold. The file-glob
  summarizer guards \<open>JSON.parse\<close> with a \<open>try\<close>/\<open>catch\<close>, but a JSON text whose
  \<open>filenames\<close> is not an array passes the guard and \<open>files.forEach\<close> throws: for the
  output \<^verbatim>\<open>{"filenames":"xxx...x"}\<close> (3000 times \<open>x\<close>) \<open>compressToolOutput\<close> throws a
  \<open>TypeError\<close> instead of returning a result of at most 2000 code units.
\<close>

theorem compressToolOutput_glob_throws:
  "jsonParse rt globJsonOutput
     = Some (JObject [(str ''filenames'', JString (replicate 3000 120))])
   \<Longrightarrow> compressToolOutput rt (str ''Glob'') toolInput globJsonOutput = Inl TypeError"
  by (simp add: compressToolOutput_def COMPRESSION_THRESHOLD_def length_globJsonOutput str_def
      compressGlobOutput_def globFiles_def truthy_def Let_def)

theorem compressToolOutput_glob_throws_witness:
  "length globJsonOutput > 3000
   \<and> compressToolOutput sampleRuntime (str ''Glob'') None globJsonOutput = Inl TypeError"
  using compressToolOutput_glob_throws [of sampleRuntime None]
  by (simp add: sampleRuntime_def length_globJsonOutput)

section \<open>Properties of the classifier\<close>

text \<open>
  C6. The type is a function of the tool name and the output alone. An output whose
  lower-casing contains \<open>error\<close>, \<open>failed\<close> or \<open>exception\<close> is a \<open>problem\<close> whatever the
  tool; otherwise one that contains \<open>success\<close>, \<open>passed\<close> or \<open>completed\<close> is a
  \<open>success\<close>; otherwise one that contains \<open>warning\<close> or \<open>deprecated\<close> is a \<open>warning\<close>;
  and only otherwise the tool decides: Read, Glob and Grep give \<open>discovery\<close>, Edit gives
  \<open>bugfix\<close> when the output mentions \<open>fix\<close> or \<open>bug\<close> and \<open>refactor\<close> when not, Write
  gives \<open>feature\<close>, every other tool \<open>discovery\<close>.
\<close>

theorem classifyObservationType_priority:
  "(mentions output [''error'', ''failed'', ''exception'']
      \<longrightarrow> classifyObservationType toolName output = Problem)
   \<and> (\<not> mentions output [''error'', ''failed'', ''exception'']
        \<and> mentions output [''success'', ''passed'', ''completed'']
      \<longrightarrow> classifyObservationType toolName output = Success)
   \<and> (\<not> mentions output [''error'', ''failed'', ''exception'']
        \<and> \<not> mentions output [''success'', ''passed'', ''completed'']
        \<and> mentions output [''warning'', ''deprecated'']
      \<longrightarrow> classifyObservationType toolName output = Warning)
   \<and> (\<not> mentions output [''error'', ''failed'', ''exception'']
        \<and> \<not> mentions output [''success'', ''passed'', ''completed'']
        \<and> \<not> mentions output [''warning'', ''deprecated'']
      \<longrightarrow> classifyObservationType toolName output =
           (if toolName \<in> {str ''Read'', str ''Glob'', str ''Grep''} then Discovery
            else if toolName = str ''Edit''
              then (if mentions output [''fix'', ''bug''] then Bugfix else Refactor)
            else if toolName = str ''Write'' then Feature
            else Discovery))"
  unfolding classifyObservationType_def mentions_def Let_def jsIncludes_sublist
  by simp

theorem classifyObservationType_priority_witness:
  "mentions (str ''Build FAILED'') [''error'', ''failed'', ''exception'']
   \<and> classifyObservationType (str ''Write'') (str ''Build FAILED'') = Problem"
  using classifyObservationType_priority [of "str ''Build FAILED''" "str ''Write''"]
  by (simp add: mentions_def jsIncludes_sublist [symmetric] toLowerCase_def lowerUnit_def str_def)

section \<open>Properties of the command-execution summarizer\<close>

lemma hd_splitOn: "hd (splitOn sep xs) = takeWhile (\<lambda>c. c \<noteq> sep) xs"
  by (induction xs) (auto split: list.splits)

lemma isErrorLine_mentions:
  "isErrorLine = (\<lambda>l. mentions l [''error'', ''failed'', ''exception'', ''warning''])"
  by (rule ext) (simp add: isErrorLine_def mentions_def jsIncludes_sublist)

lemma isSuccessLine_mentions:
  "isSuccessLine = (\<lambda>l. mentions l [''success'', ''passed'', ''completed'', ''done''])"
  by (rule ext) (simp add: isSuccessLine_def mentions_def jsIncludes_sublist)

lemma stringOnly_command:
  "stringOnly (inputField ''command'' ti (str ''command'')) =
     (case bashCommand ti of None \<Rightarrow> Inl TypeError | Some c \<Rightarrow> Inr c)"
  by (auto simp: stringOnly_def inputField_def bashCommand_def truthy_def
      split: option.splits json.splits)

lemma compressBashOutput_throws:
  "bashCommand ti = None \<Longrightarrow> compressBashOutput ti output = Inl TypeError"
  by (simp add: compressBashOutput_def stringOnly_command)

lemma compressBashOutput_eq:
  "bashCommand ti = Some command \<Longrightarrow>
   compressBashOutput ti output =
     Inr (bashCommandHeader
     @ take 100 (takeWhile (\<lambda>c. c \<noteq> nl) command)
     @ (if filter isErrorLine (splitOn nl output) \<noteq> []
        then bashErrorsHeader (length (filter isErrorLine (splitOn nl output)))
             @ joinWith [nl] (take 10 (filter isErrorLine (splitOn nl output)))
        else [])
     @ (if filter isSuccessLine (splitOn nl output) \<noteq> []
        then bashSuccessHeader @ joinWith [nl] (take 5 (filter isSuccessLine (splitOn nl output)))
        else [])
     @ bashFooter (length (splitOn nl output))
     @ (if length (splitOn nl output) \<le> 20
        then (nl # str ''--- Full output ---'') @ output
        else (nl # str ''--- First 10 lines ---'') @ joinWith [nl] (take 10 (splitOn nl output))
             @ (nl # str ''--- Last 5 lines ---'')
             @ joinWith [nl] (sliceLast 5 (splitOn nl output))))"
  unfolding compressBashOutput_def Let_def stringOnly_command
  by (simp add: joinWith_splitOn hd_splitOn)

lemma splitOn_joinWith:
  "ls \<noteq> [] \<Longrightarrow> \<forall>l\<in>set ls. sep \<notin> set l \<Longrightarrow> splitOn sep (joinWith [sep] ls) = ls"
proof (induction ls)
  case Nil
  then show ?case by simp
next
  case (Cons x ys)
  then show ?case
    by (cases ys) (simp_all add: splitOn_no_sep splitOn_append_sep)
qed

lemma length_joinWith_replicate:
  "0 < n \<Longrightarrow> length (joinWith [s] (replicate n x)) = n * length x + (n - 1)"
proof (induction n)
  case 0
  then show ?case by simp
next
  case (Suc n)
  then show ?case by (cases n) simp_all
qed

lemma length_lines: "length errLine = 57" "length okLine = 16" "length plainLine = 50"
  by (simp_all add: errLine_def okLine_def plainLine_def str_def)

lemma nl_notin_lines: "10 \<notin> set errLine" "10 \<notin> set okLine" "10 \<notin> set plainLine"
  by (simp_all add: errLine_def okLine_def plainLine_def str_def)

lemma splitOn_ordinaryLog:
  "splitOn 10 ordinaryLog = replicate 12 errLine @ replicate 6 okLine @ replicate 53 plainLine"
  unfolding ordinaryLog_def nl_def
  by (rule splitOn_joinWith) (auto simp: nl_notin_lines)

lemma mentions_lines:
  "mentions errLine [''error'', ''failed'', ''exception'', ''warning'']"
  "\<not> mentions okLine [''error'', ''failed'', ''exception'', ''warning'']"
  "\<not> mentions plainLine [''error'', ''failed'', ''exception'', ''warning'']"
  "\<not> mentions errLine [''success'', ''passed'', ''completed'', ''done'']"
  "mentions okLine [''success'', ''passed'', ''completed'', ''done'']"
  "\<not> mentions plainLine [''success'', ''passed'', ''completed'', ''done'']"
  by (simp_all add: mentions_def jsIncludes_sublist [symmetric] toLowerCase_def lowerUnit_def
      errLine_def okLine_def plainLine_def str_def)

lemma length_ordinaryLog: "length ordinaryLog = 3500"
proof -
  have "length (joinWith [s] ls) = sum_list (map length ls) + (length ls - 1)" for s :: nat and ls
  proof (induction ls)
    case Nil
    show ?case by simp
  next
    case (Cons x ys)
    then show ?case by (cases ys) simp_all
  qed
  then show ?thesis
    by (simp add: ordinaryLog_def length_lines sum_list_replicate)
qed

lemma shortCmd_ordinary:
  "take 100 (takeWhile (\<lambda>c. c \<noteq> 10) ordinaryCommand) = str ''npm test '' @ replicate 91 120"
proof -
  have "x \<noteq> s \<Longrightarrow> takeWhile (\<lambda>c. c \<noteq> s) (replicate n x @ s # ys) = replicate n x"
    for x s :: nat and n ys
    by (induction n) auto
  then have "takeWhile (\<lambda>c. c \<noteq> 10) (replicate 120 (120::nat) @ 10 # ys) = replicate 120 120" for ys
    by simp
  then show ?thesis
    by (simp add: ordinaryCommand_def nl_def str_def del: replicate_Suc)
qed

lemma numToString_12_71: "numToString 12 = str ''12''" "numToString 71 = str ''71''"
  by (simp_all add: numToString.simps str_def)

lemma length_ordinarySummary: "length ordinarySummary = 1716"
  by (simp add: ordinarySummary_def length_joinWith_replicate length_lines str_def)

lemma sublist_joinWith: "x \<in> set ls \<Longrightarrow> sublist x (joinWith sep ls)"
proof (induction ls)
  case Nil
  then show ?case by simp
next
  case (Cons y ys)
  show ?case
  proof (cases ys)
    case Nil
    with Cons.prems show ?thesis by simp
  next
    case (Cons z zs)
    have j: "joinWith sep (y # ys) = y @ sep @ joinWith sep ys"
      using Cons by simp
    show ?thesis
    proof (cases "x = y")
      case True
      then show ?thesis unfolding j by (simp add: sublist_append)
    next
      case False
      with Cons.prems Cons.IH have "sublist x (joinWith sep ys)" by simp
      then show ?thesis unfolding j by (simp add: sublist_append)
    qed
  qed
qed

lemma ordinaryLog_example:
  "sublist (str ''Error: failed'') ordinaryLog" "sublist (str ''All tests passed'') ordinaryLog"
proof -
  have "sublist (str ''Error: failed'') errLine"
    by (rule prefix_imp_sublist) (simp add: errLine_def str_def)
  moreover have "sublist errLine ordinaryLog"
    unfolding ordinaryLog_def by (rule sublist_joinWith) simp
  ultimately show "sublist (str ''Error: failed'') ordinaryLog"
    by (rule sublist_order.order.trans)
  have "sublist okLine ordinaryLog"
    unfolding ordinaryLog_def by (rule sublist_joinWith) simp
  then show "sublist (str ''All tests passed'') ordinaryLog"
    by (simp add: okLine_def)
qed

lemma bashCommand_ordinaryInput: "bashCommand ordinaryInput = Some ordinaryCommand"
  by (simp add: bashCommand_def ordinaryInput_def ordinaryCommand_def str_def)

lemma nl_notin_bashLogLine: "nl \<notin> set bashLogLine"
  by (simp add: bashLogLine_def nl_def str_def)

lemma splitOn_bashLog: "splitOn nl bashLog = bashLogLine # replicate 19 []"
proof -
  have "replicate 19 nl = nl # replicate 18 nl"
    using replicate_Suc [of 18 nl] by simp
  then have "splitOn nl bashLog = bashLogLine # splitOn nl (replicate 18 nl)"
    by (simp add: bashLog_def splitOn_append_sep nl_notin_bashLogLine)
  also have "splitOn nl (replicate 18 nl) = replicate 19 []"
    using splitOn_replicate [of nl 18] by simp
  finally show ?thesis .
qed

lemma isErrorLine_bashLogLine: "isErrorLine bashLogLine"
  by (simp add: isErrorLine_def bashLogLine_def toLowerCase_def lowerUnit_def str_def)

lemma isSuccessLine_bashLogLine: "isSuccessLine bashLogLine"
proof -
  have "sublist (str ''passed'') (toLowerCase (str ''All tests passed''))"
    by (simp add: jsIncludes_sublist [symmetric] toLowerCase_def lowerUnit_def str_def)
  then have "sublist (str ''passed'') (toLowerCase bashLogLine)"
    by (simp add: bashLogLine_def toLowerCase_def sublist_append del: replicate_Suc)
  then show ?thesis
    by (simp add: isSuccessLine_def jsIncludes_sublist)
qed

lemma not_marked_empty: "\<not> isErrorLine []" "\<not> isSuccessLine []"
  by (simp_all add: isErrorLine_def isSuccessLine_def toLowerCase_def str_def)

lemma numToString_1: "numToString 1 = [49]" "numToString (Suc 0) = [49]" 
  by (simp_all add: numToString.simps)

lemma numToString_20: "numToString 20 = [50, 48]" 
  by (simp add: numToString.simps)

lemma bashCommand_npmTest: "bashCommand npmTest = Some (str ''npm test'')"
  by (simp add: bashCommand_def npmTest_def str_def)

lemma compressBashOutput_bashLog: "compressBashOutput npmTest bashLog = Inr bashLogSummary"
  unfolding compressBashOutput_eq [OF bashCommand_npmTest] splitOn_bashLog
  by (simp add: isErrorLine_bashLogLine isSuccessLine_bashLogLine not_marked_empty
      bashLogSummary_def bashCommandHeader_def bashErrorsHeader_def bashSuccessHeader_def
      bashFooter_def numToString_1 numToString_20 str_def nl_def)

lemma length_bashLog: "length bashLog = 3500"
  by (simp add: bashLog_def bashLogLine_def str_def)

lemma truncate_bashLogSummary: "truncateToTarget bashLogSummary = bashLogCompressed"
proof -
  have "length bashLogSummary > 2000"
    by (simp add: bashLogSummary_def length_bashLog)
  moreover have "take 1980 bashLogSummary =
      [0xD83D, 0xDDA5, 0xFE0F] @ str '' Command: npm test''
      @ [10, 0x274C] @ str '' Errors (1):Error: failed'' @ replicate 1932 120"
    by (simp add: bashLogSummary_def bashLogLine_def str_def del: replicate_Suc)
  ultimately show ?thesis
    by (simp add: truncateToTarget_cut bashLogCompressed_def truncationMarker_def nl_def)
qed

lemma compress_bashLog:
  "compressToolOutput sampleRuntime (str ''Bash'') npmTest bashLog =
     Inr \<lparr>compressed = bashLogCompressed, wasCompressed = True, originalSize = 3500\<rparr>"
  by (simp add: compressToolOutput_def COMPRESSION_THRESHOLD_def length_bashLog str_def
      compressBashOutput_bashLog truncate_bashLogSummary [unfolded str_def])

lemma not_sublist_by_unit: "c \<in> set p \<Longrightarrow> c \<notin> set t \<Longrightarrow> \<not> sublist p t"
  using set_mono_sublist by fastforce

lemma set_bashLogCompressed:
  "83 \<notin> set bashLogCompressed" "79 \<notin> set bashLogCompressed"
  by (simp_all add: bashLogCompressed_def str_def)

lemma bashCommand_argvInput: "bashCommand argvInput = None"
  by (simp add: bashCommand_def argvInput_def str_def)

text \<open>
  C9, as stated, fails in three ways. A log of the kind the specification's example
  describes, \<open>bashLog\<close>, has 3500 code units, contains \<open>Error: failed\<close> and
  \<open>All tests passed\<close> and has 20 lines, so it is not under 20 lines; the summarizer
  still appends the full output, not the first 10 and last 5 lines. Its one long line is
  listed under Errors first, the cut at 1980 code units falls inside it, and the
  compressed text has neither the Success-indicators section nor the line-count footer.
  And for a command that is not a string, here the array of the words \<open>npm\<close> and
  \<open>test\<close>, the summarizer emits nothing: \<open>command.split\<close> throws a \<open>TypeError\<close>.
\<close>

theorem compressBash_example_counterexample:
  "length bashLog = 3500
   \<and> sublist (str ''Error: failed'') bashLog \<and> sublist (str ''All tests passed'') bashLog
   \<and> length (splitOn 10 bashLog) = 20
   \<and> compressBashOutput npmTest bashLog = Inr bashLogSummary
   \<and> compressToolOutput sampleRuntime (str ''Bash'') npmTest bashLog =
       Inr \<lparr>compressed = bashLogCompressed, wasCompressed = True, originalSize = 3500\<rparr>
   \<and> \<not> sublist (str ''Success indicators'') bashLogCompressed
   \<and> \<not> sublist (str ''Output: 20 lines total'') bashLogCompressed
   \<and> compressToolOutput sampleRuntime (str ''Bash'') argvInput bashLog = Inl TypeError"
proof -
  have a: "sublist (str ''Error: failed'') bashLog"
    unfolding bashLog_def bashLogLine_def by (intro sublist_appendI prefix_imp_sublist) simp
  have "sublist (str ''All tests passed'') (str ''All tests passed'')" by simp
  then have b: "sublist (str ''All tests passed'') bashLog"
    unfolding bashLog_def bashLogLine_def
    by (simp add: sublist_append del: replicate_Suc)
  have d: "\<not> sublist (str ''Success indicators'') bashLogCompressed"
    by (rule not_sublist_by_unit [of 83]) (simp_all add: set_bashLogCompressed str_def)
  have e: "\<not> sublist (str ''Output: 20 lines total'') bashLogCompressed"
    by (rule not_sublist_by_unit [of 79]) (simp_all add: set_bashLogCompressed str_def)
  have f: "compressToolOutput sampleRuntime (str ''Bash'') argvInput bashLog = Inl TypeError"
    by (simp add: compressToolOutput_def COMPRESSION_THRESHOLD_def length_bashLog str_def
        compressBashOutput_throws [OF bashCommand_argvInput])
  show ?thesis
    using a b d e f
    by (simp add: length_bashLog splitOn_bashLog [unfolded nl_def] compress_bashLog
        compressBashOutput_bashLog)
qed

lemma prefix_first_line:
  "prefix x xs \<Longrightarrow> sep \<notin> set x \<Longrightarrow> prefix x (hd (splitOn sep xs))"
proof (induction x arbitrary: xs)
  case Nil
  show ?case by simp
next
  case (Cons a x)
  from Cons.prems(1) obtain cs where xs: "xs = a # cs" and p: "prefix x cs"
    by (cases xs) auto
  from Cons.prems have "a \<noteq> sep" by auto
  moreover from Cons.IH [OF p] Cons.prems have "prefix x (hd (splitOn sep cs))" by simp
  ultimately show ?case
    unfolding xs by (cases "splitOn sep cs") auto
qed

lemma sublist_line:
  "sublist x xs \<Longrightarrow> sep \<notin> set x \<Longrightarrow> \<exists>l\<in>set (splitOn sep xs). sublist x l"
proof (induction xs)
  case Nil
  then show ?case by simp
next
  case (Cons c cs)
  obtain l0 ls where s: "splitOn sep cs = l0 # ls"
    by (cases "splitOn sep cs") auto
  from Cons.prems(1) consider (here) "prefix x (c # cs)" | (later) "sublist x cs"
    by (auto simp: sublist_Cons_right)
  then show ?case
  proof cases
    case here
    from prefix_first_line [OF here Cons.prems(2)]
    have "sublist x (hd (splitOn sep (c # cs)))" by (rule prefix_imp_sublist)
    moreover have "hd (splitOn sep (c # cs)) \<in> set (splitOn sep (c # cs))"
      by (rule hd_in_set) (rule splitOn_nonempty)
    ultimately show ?thesis by blast
  next
    case later
    from Cons.IH [OF later Cons.prems(2)] obtain l where
      l: "l \<in> set (splitOn sep cs)" "sublist x l" by blast
    show ?thesis
    proof (cases "c = sep")
      case True
      with l show ?thesis by auto
    next
      case False
      show ?thesis
      proof (cases "l = l0")
        case True
        with l(2) have "sublist x (c # l0)" by (simp add: sublist_Cons_right)
        with False s show ?thesis by auto
      next
        case ne: False
        with l s have "l \<in> set ls" by simp
        with False s l(2) show ?thesis by auto
      qed
    qed
  qed
qed

lemma mentions_sublist:
  assumes "sublist x l" and "sublist (str m) (toLowerCase x)"
  shows "mentions l [m]"
proof -
  from assms(1) have "sublist (toLowerCase x) (toLowerCase l)"
    unfolding toLowerCase_def by (rule map_mono_sublist)
  with assms(2) have "sublist (str m) (toLowerCase l)"
    by (rule sublist_order.order.trans)
  then show ?thesis by (simp add: mentions_def)
qed

lemma example_lines:
  assumes "sublist (str ''Error: failed'') output" and "sublist (str ''All tests passed'') output"
  shows "filter (\<lambda>l. mentions l [''error'', ''failed'', ''exception'', ''warning''])
           (splitOn 10 output) \<noteq> []"
    and "filter (\<lambda>l. mentions l [''success'', ''passed'', ''completed'', ''done''])
           (splitOn 10 output) \<noteq> []"
proof -
  from sublist_line [OF assms(1), of 10] obtain l where
    l: "l \<in> set (splitOn 10 output)" "sublist (str ''Error: failed'') l"
    by (auto simp: str_def)
  have "sublist (str ''error'') (toLowerCase (str ''Error: failed''))"
    by (rule prefix_imp_sublist) (simp add: toLowerCase_def lowerUnit_def str_def)
  with l(2) have "mentions l [''error'']" by (rule mentions_sublist)
  then have "mentions l [''error'', ''failed'', ''exception'', ''warning'']"
    by (simp add: mentions_def)
  with l(1) show "filter (\<lambda>l. mentions l [''error'', ''failed'', ''exception'', ''warning''])
           (splitOn 10 output) \<noteq> []"
    by (auto simp: filter_empty_conv)
  from sublist_line [OF assms(2), of 10] obtain k where
    k: "k \<in> set (splitOn 10 output)" "sublist (str ''All tests passed'') k"
    by (auto simp: str_def)
  have "sublist (str ''passed'') (toLowerCase (str ''All tests passed''))"
    by (rule suffix_imp_sublist) (simp add: toLowerCase_def lowerUnit_def str_def suffix_def)
  with k(2) have "mentions k [''passed'']" by (rule mentions_sublist)
  then have "mentions k [''success'', ''passed'', ''completed'', ''done'']"
    by (simp add: mentions_def)
  with k(1) show "filter (\<lambda>l. mentions l [''success'', ''passed'', ''completed'', ''done''])
           (splitOn 10 output) \<noteq> []"
    by (auto simp: filter_empty_conv)
qed

text \<open>
  C9, amended. Let a Bash output have more than 3000 code units. When the command of the
  tool input is a value other than a string and not falsy, the summarizer throws. In every
  other case the summary is, in this order: the command header with the first line of
  the command (the word \<open>command\<close> when none is given) cut to 100 code units; when
  some line contains \<open>error\<close>, \<open>failed\<close>, \<open>exception\<close> or \<open>warning\<close> in any
  case, the Errors header with the number of these lines and the first 10 of them; when
  some line contains \<open>success\<close>, \<open>passed\<close>, \<open>completed\<close> or \<open>done\<close>, the
  Success-indicators header and the first 5 of them; the footer with the number of
  lines; and the full output when there are at most 20 lines, the first 10 and the last
  5 lines when there are more. \<open>compressToolOutput\<close> returns the summary whole when it
  has at most 2000 code units, and its first 1980 code units followed by the truncation
  marker when it has more, so never more than 2000 code units. For a log that contains
  \<open>Error: failed\<close> and \<open>All tests passed\<close> and whose summary has at most 2000 code
  units, the result has the Errors section, the Success-indicators section and the
  line-count footer.
\<close>

theorem compressBashOutput_sections:
  fixes rt :: runtime and ti :: "toolInput option" and "output" :: jsstring
  defines "lines \<equiv> splitOn 10 output"
  defines "errs \<equiv> filter (\<lambda>l. mentions l [''error'', ''failed'', ''exception'', ''warning''])
                      (splitOn 10 output)"
  defines "oks \<equiv> filter (\<lambda>l. mentions l [''success'', ''passed'', ''completed'', ''done''])
                     (splitOn 10 output)"
  defines "errorsSection \<equiv>
     (if errs = [] then []
      else [10, 0x274C] @ str '' Errors ('' @ numToString (length errs) @ str ''):''
           @ joinWith [10] (take 10 errs))"
  defines "successSection \<equiv>
     (if oks = [] then []
      else [10, 0x2705] @ str '' Success indicators:'' @ joinWith [10] (take 5 oks))"
  defines "footer \<equiv>
     [10, 0xD83D, 0xDCCA] @ str '' Output: '' @ numToString (length lines) @ str '' lines total''"
  defines "context \<equiv>
     (if length lines \<le> 20 then 10 # str ''--- Full output ---'' @ output
      else 10 # str ''--- First 10 lines ---'' @ joinWith [10] (take 10 lines)
           @ 10 # str ''--- Last 5 lines ---'' @ joinWith [10] (drop (length lines - 5) lines))"
  defines "summary \<equiv> \<lambda>command.
     [0xD83D, 0xDDA5, 0xFE0F] @ str '' Command: '' @ take 100 (takeWhile (\<lambda>c. c \<noteq> 10) command)
     @ errorsSection @ successSection @ footer @ context"
  defines "kept \<equiv> \<lambda>command.
     (if length (summary command) \<le> 2000 then summary command
      else take 1980 (summary command) @ 10 # str ''... (compressed)'')"
  assumes "length output > 3000"
  shows "(bashCommand ti = None \<longrightarrow>
            compressToolOutput rt (str ''Bash'') ti output = Inl TypeError)
     \<and> (\<forall>command. bashCommand ti = Some command \<longrightarrow>
          compressToolOutput rt (str ''Bash'') ti output =
            Inr \<lparr>compressed = kept command, wasCompressed = True, originalSize = length output\<rparr>
          \<and> length (kept command) \<le> 2000
          \<and> (sublist (str ''Error: failed'') output \<and> sublist (str ''All tests passed'') output
               \<and> length (summary command) \<le> 2000 \<longrightarrow>
                 sublist ([0x274C] @ str '' Errors ('') (kept command)
                 \<and> sublist ([0x2705] @ str '' Success indicators:'') (kept command)
                 \<and> sublist (str '' lines total'') (kept command)))"
proof (intro conjI allI impI)
  assume "bashCommand ti = None"
  with assms(10) show "compressToolOutput rt (str ''Bash'') ti output = Inl TypeError"
    by (simp add: compressToolOutput_def COMPRESSION_THRESHOLD_def compressBashOutput_throws
        str_def)
next
  fix command
  assume c: "bashCommand ti = Some command"
  have s: "compressBashOutput ti output = Inr (summary command)"
    unfolding compressBashOutput_eq [OF c] summary_def errorsSection_def successSection_def
      footer_def context_def errs_def oks_def lines_def
    by (simp add: bashCommandHeader_def bashErrorsHeader_def bashSuccessHeader_def bashFooter_def
        isErrorLine_mentions isSuccessLine_mentions nl_def sliceLast_def)
  with assms(10) show "compressToolOutput rt (str ''Bash'') ti output =
      Inr \<lparr>compressed = kept command, wasCompressed = True, originalSize = length output\<rparr>"
    by (simp add: compressToolOutput_def COMPRESSION_THRESHOLD_def truncateToTarget_def
        TARGET_COMPRESSED_SIZE_def truncationMarker_def nl_def str_def kept_def)
  show "length (kept command) \<le> 2000"
    by (simp add: kept_def str_def)
  assume e: "sublist (str ''Error: failed'') output \<and> sublist (str ''All tests passed'') output
               \<and> length (summary command) \<le> 2000"
  then have ne: "errs \<noteq> []" "oks \<noteq> []"
    unfolding errs_def oks_def by (simp_all add: example_lines)
  from e have k: "kept command = summary command"
    by (simp add: kept_def)
  show "sublist ([0x274C] @ str '' Errors ('') (kept command)"
    unfolding k summary_def errorsSection_def sublist_def using ne
    by (intro exI [of _ "[0xD83D, 0xDDA5, 0xFE0F] @ str '' Command: ''
          @ take 100 (takeWhile (\<lambda>c. c \<noteq> 10) command) @ [10]"]
        exI [of _ "numToString (length errs) @ str ''):'' @ joinWith [10] (take 10 errs)
          @ successSection @ footer @ context"]) simp
  show "sublist ([0x2705] @ str '' Success indicators:'') (kept command)"
    unfolding k summary_def successSection_def sublist_def using ne
    by (intro exI [of _ "[0xD83D, 0xDDA5, 0xFE0F] @ str '' Command: ''
          @ take 100 (takeWhile (\<lambda>c. c \<noteq> 10) command) @ errorsSection @ [10]"]
        exI [of _ "joinWith [10] (take 5 oks) @ footer @ context"]) simp
  show "sublist (str '' lines total'') (kept command)"
    unfolding k summary_def footer_def sublist_def
    by (intro exI [of _ "[0xD83D, 0xDDA5, 0xFE0F] @ str '' Command: ''
          @ take 100 (takeWhile (\<lambda>c. c \<noteq> 10) command) @ errorsSection @ successSection
          @ [10, 0xD83D, 0xDCCA] @ str '' Output: '' @ numToString (length lines)"]
        exI [of _ "context"]) simp
qed

theorem compressBashOutput_sections_witness:
  "length ordinaryLog > 3000
   \<and> sublist (str ''Error: failed'') ordinaryLog \<and> sublist (str ''All tests passed'') ordinaryLog
   \<and> bashCommand ordinaryInput = Some ordinaryCommand
   \<and> compressToolOutput sampleRuntime (str ''Bash'') ordinaryInput ordinaryLog =
       Inr \<lparr>compressed = ordinarySummary, wasCompressed = True, originalSize = 3500\<rparr>
   \<and> length ordinarySummary = 1716
   \<and> sublist ([0x274C] @ str '' Errors ('') ordinarySummary
   \<and> sublist ([0x2705] @ str '' Success indicators:'') ordinarySummary
   \<and> sublist (str '' lines total'') ordinarySummary"
proof -
  have l: "length ordinaryLog > 3000"
    by (simp add: length_ordinaryLog)
  have e: "filter (\<lambda>l. mentions l [''error'', ''failed'', ''exception'', ''warning''])
             (replicate 12 errLine @ replicate 6 okLine @ replicate 53 plainLine)
           = replicate 12 errLine"
    and s: "filter (\<lambda>l. mentions l [''success'', ''passed'', ''completed'', ''done''])
             (replicate 12 errLine @ replicate 6 okLine @ replicate 53 plainLine)
           = replicate 6 okLine"
    by (simp_all add: filter_replicate mentions_lines)
  have d: "drop 66 (replicate 12 errLine @ replicate 6 okLine @ replicate 53 plainLine)
      = replicate 5 plainLine"
    by simp
  have t: "take 10 (replicate 12 errLine @ replicate 6 okLine @ replicate 53 plainLine)
      = replicate 10 errLine"
    by simp
  note thm1 = compressBashOutput_sections [OF l, of ordinaryInput sampleRuntime,
      unfolded splitOn_ordinaryLog e s bashCommand_ordinaryInput]
  from thm1 have
    "compressToolOutput sampleRuntime (str ''Bash'') ordinaryInput ordinaryLog =
       Inr \<lparr>compressed = ordinarySummary, wasCompressed = True, originalSize = 3500\<rparr>
     \<and> sublist ([0x274C] @ str '' Errors ('') ordinarySummary
     \<and> sublist ([0x2705] @ str '' Success indicators:'') ordinarySummary
     \<and> sublist (str '' lines total'') ordinarySummary"
    by (simp add: shortCmd_ordinary numToString_12_71 d t length_ordinaryLog
        length_joinWith_replicate length_lines length_str ordinarySummary_def
        ordinaryLog_example del: replicate_Suc)
  with l show ?thesis
    by (simp add: bashCommand_ordinaryInput length_ordinarySummary ordinaryLog_example)
qed

section \<open>Properties of the store\<close>

lemma countTokens_le: "count \<le> maxTokens \<Longrightarrow> countTokens maxTokens obs count \<le> maxTokens"
  by (induction obs arbitrary: count) (auto simp: Let_def)

lemma countTokens_prefix:
  "\<exists>k\<le>length obs. countTokens maxTokens obs count = count + sum_list (map obsTokens (take k obs))
     \<and> (k < length obs \<longrightarrow> count + sum_list (map obsTokens (take (Suc k) obs)) > maxTokens)"
proof (induction obs arbitrary: count)
  case Nil
  show ?case by simp
next
  case (Cons o1 rest)
  show ?case
  proof (cases "count + obsTokens o1 > maxTokens")
    case True
    then show ?thesis
      by (intro exI [of _ 0]) (simp add: obsTokens_def [symmetric] Let_def)
  next
    case False
    from Cons.IH [of "count + obsTokens o1"] obtain k where
      k: "k \<le> length rest"
         "countTokens maxTokens rest (count + obsTokens o1)
            = count + obsTokens o1 + sum_list (map obsTokens (take k rest))"
         "k < length rest \<longrightarrow>
            count + obsTokens o1 + sum_list (map obsTokens (take (Suc k) rest)) > maxTokens"
      by blast
    with False show ?thesis
      by (intro exI [of _ "Suc k"]) (simp add: obsTokens_def [symmetric] Let_def add.assoc)
  qed
qed

lemma withMemvidLock_Inr:
  assumes "withMemvidLock en lp fn w = (Inr x, w')"
  shows "\<exists>w2 w3. fn w2 = (Inr x, w3)"
  using assms unfolding withMemvidLock_def Let_def
  by (auto split: if_splits prod.splits)

lemma getContextLocked_tokenCount:
  assumes "getContextLocked en m query w = (Inr ctx, w')"
  shows "tokenCount ctx = countTokens (maxContextTokens (mindConfig m)) (recentObservations ctx) 0"
  using assms unfolding getContextLocked_def Let_def
  by (auto split: if_splits prod.splits sum.splits)

text \<open>
  C7, amended. For every timeline the engine returns and every configured
  \<open>maxContextTokens\<close> that is not negative, the \<open>tokenCount\<close> that \<open>getContext\<close> returns
  does not exceed \<open>maxContextTokens\<close>. It is the sum of the estimated tokens of the first
  \<open>k\<close> recent observations, each the length of \<open>[type] summary\<close> divided by four and
  rounded up, and when observations are left over, adding the next one would exceed the
  budget: that observation, and every later one, contributes nothing.
\<close>

theorem getContext_budget:
  assumes "0 \<le> maxContextTokens (mindConfig m)"
    and "getContext en m query w = (Inr ctx, w')"
  shows "tokenCount ctx \<le> maxContextTokens (mindConfig m)
    \<and> (\<exists>k\<le>length (recentObservations ctx).
          tokenCount ctx = sum_list (map obsTokens (take k (recentObservations ctx)))
          \<and> (k < length (recentObservations ctx) \<longrightarrow>
               sum_list (map obsTokens (take (Suc k) (recentObservations ctx)))
                 > maxContextTokens (mindConfig m)))"
proof -
  from assms(2) obtain w2 w3 where "getContextLocked en m query w2 = (Inr ctx, w3)"
    unfolding getContext_def withLock_def by (blast dest: withMemvidLock_Inr)
  then have t: "tokenCount ctx
      = countTokens (maxContextTokens (mindConfig m)) (recentObservations ctx) 0"
    by (rule getContextLocked_tokenCount)
  show ?thesis
    using countTokens_le [OF assms(1), of "recentObservations ctx"]
      countTokens_prefix [of "recentObservations ctx" "maxContextTokens (mindConfig m)" 0]
    unfolding t by simp
qed

lemmas getContext_eval =
  getContext_def withLock_def withMemvidLock_def getContextLocked_def engineTimeline_def
  timelineFrames_def sampleEnv_def sampleWorld_def sampleMind_def timelineEnv_def budgetMind_def
  DEFAULT_CONFIG_def touch_def fileAt_def logEvent_def getMemoryPath_def
  toObservation_def sampleFrame_def tokenText_def estimateTokens_def titleSummary_def
  stripTag_def frameTimestamp_def metaProp_def orValue_def orDefault_def orElse_def
  isSpaceUnit_def isLineTerminator_def

theorem getContext_budget_witness:
  "0 \<le> maxContextTokens (mindConfig (budgetMind 10))
   \<and> map_sum id tokenCount (fst (getContext timelineEnv (budgetMind 10) None sampleWorld)) = Inr 6
   \<and> (6::int) \<le> maxContextTokens (mindConfig (budgetMind 10))"
proof -
  have z: "0 \<le> maxContextTokens (mindConfig (budgetMind 10))"
    by (simp add: budgetMind_def)
  have t: "map_sum id tokenCount (fst (getContext timelineEnv (budgetMind 10) None sampleWorld))
             = Inr 6"
    by (simp add: getContext_eval Let_def str_def split: prod.splits)
  obtain r w' where e: "getContext timelineEnv (budgetMind 10) None sampleWorld = (r, w')"
    by (cases "getContext timelineEnv (budgetMind 10) None sampleWorld") auto
  with t obtain ctx where r: "r = Inr ctx" and c: "tokenCount ctx = 6"
    by (cases r) auto
  from getContext_budget [OF z e [unfolded r]] c t z show ?thesis
    by simp
qed

text \<open>
  C7, as stated, fails for a negative budget: with \<open>maxContextTokens = -1\<close> and an empty
  timeline the loop does not run and \<open>getContext\<close> returns \<open>tokenCount = 0\<close>, which
  exceeds the configured \<open>-1\<close>.
\<close>

theorem getContext_budget_counterexample:
  "map_sum id tokenCount (fst (getContext sampleEnv (budgetMind (- 1)) None sampleWorld)) = Inr 0
   \<and> maxContextTokens (mindConfig (budgetMind (- 1))) = - 1
   \<and> \<not> (0::int) \<le> maxContextTokens (mindConfig (budgetMind (- 1)))"
  by (simp add: getContext_eval Let_def str_def split: prod.splits)

subsection \<open>The lock discipline\<close>

lemma touch_held [simp]: "held (touch p w) = held w"
  by (simp add: touch_def split: option.splits)

lemma touch_events [simp]: "events (touch p w) = events w"
  by (simp add: touch_def split: option.splits)

lemma withMemvidLock_underLock:
  assumes "\<And>v. held (snd (fn v)) = held v"
    and "\<And>v. events (snd (fn v)) = events v @ calls v"
  shows "underLock en lockPath fn w (withMemvidLock en lockPath fn w)
           (calls (lockedWorld lockPath w))"
proof (cases "acquires en lockPath w")
  case False
  then show ?thesis
    unfolding underLock_def withMemvidLock_def acquires_def Let_def
    by auto
next
  case True
  let ?v = "lockedWorld lockPath w"
  obtain r v' where f: "fn ?v = (r, v')"
    by (cases "fn ?v") auto
  from assms [of ?v] f have v': "held v' = lockPath # held w"
    "events v' = events w @ [Acquired lockPath, Entered lockPath] @ calls ?v"
    by (simp_all add: lockedWorld_def logEvent_def)
  from True f have r: "withMemvidLock en lockPath fn w
      = (r, logEvent (Released lockPath) (v'\<lparr>held := remove1 lockPath (held v')\<rparr>))"
    unfolding withMemvidLock_def acquires_def Let_def lockedWorld_def by simp
  show ?thesis
    unfolding underLock_def r using True v' f assms(2) [of ?v]
    by (auto simp: logEvent_def oneRun_def lockedWorld_def intro!: exI [of _ ?v])
qed

lemma enginePut_events:
  "events (snd (enginePut en p fr v)) = events v @ [EngineCall p (OpPut fr)]"
  "held (snd (enginePut en p fr v)) = held v"
  unfolding enginePut_def Let_def
  by (auto simp: logEvent_def split: sum.splits)

lemma searchUnlocked_events:
  "events (snd (searchUnlocked en m q k v)) = events v @ [EngineCall (memvid m) (OpFind q k)]"
  "held (snd (searchUnlocked en m q k v)) = held v"
  unfolding searchUnlocked_def Let_def
  by (auto simp: logEvent_def split: sum.splits)

lemma askLocked_events:
  "events (snd (askLocked en m q v)) = events v @ [EngineCall (memvid m) (OpAsk q)]"
  "held (snd (askLocked en m q v)) = held v"
  unfolding askLocked_def Let_def
  by (auto simp: logEvent_def split: sum.splits)

lemma engineTimeline_events:
  "events (snd (engineTimeline en m k r v)) = events v @ [EngineCall (memvid m) (OpTimeline k r)]"
  "held (snd (engineTimeline en m k r v)) = held v"
  unfolding engineTimeline_def Let_def
  by (auto simp: logEvent_def split: sum.splits)

lemma getContextLocked_events:
  "events (snd (getContextLocked en m q v)) = events v @ contextCalls en m q v"
  "held (snd (getContextLocked en m q v)) = held v"
proof -
  let ?n = "maxContextObservations (mindConfig m)"
  obtain r1 v1 where t: "engineTimeline en m ?n True v = (r1, v1)"
    by (cases "engineTimeline en m ?n True v") auto
  obtain r2 v2 where s: "searchUnlocked en m (orDefault q []) 10 v1 = (r2, v2)"
    by (cases "searchUnlocked en m (orDefault q []) 10 v1") auto
  from t have t': "events v1 = events v @ [EngineCall (memvid m) (OpTimeline ?n True)]"
      "held v1 = held v" "isl r1 = isl (timelineResult en v (memvid m) ?n True)"
    using engineTimeline_events [of en m ?n True v]
    by (auto simp: engineTimeline_def Let_def split: sum.splits)
  from s have s': "events v2 = events v1 @ [EngineCall (memvid m) (OpFind (orDefault q []) 10)]"
      "held v2 = held v1"
    using searchUnlocked_events [of en m "orDefault q []" 10 v1] by simp_all
  show "events (snd (getContextLocked en m q v)) = events v @ contextCalls en m q v"
    unfolding getContextLocked_def contextCalls_def Let_def using t s t' s'
    by (auto split: sum.splits prod.splits)
  show "held (snd (getContextLocked en m q v)) = held v"
    unfolding getContextLocked_def Let_def using t s t' s'
    by (auto split: sum.splits prod.splits)
qed

lemma statsLocked_events:
  "events (snd (statsLocked en m v)) = events v @ statsCalls en m v"
  "held (snd (statsLocked en m v)) = held v"
proof -
  let ?v0 = "logEvent (EngineCall (memvid m) OpStats) v"
  obtain r1 v1 where t: "engineTimeline en m 1 False ?v0 = (r1, v1)"
    by (cases "engineTimeline en m 1 False ?v0") auto
  obtain r2 v2 where s: "engineTimeline en m 1 True v1 = (r2, v2)"
    by (cases "engineTimeline en m 1 True v1") auto
  from t have t': "events v1 = events ?v0 @ [EngineCall (memvid m) (OpTimeline 1 False)]"
      "held v1 = held ?v0" "isl r1 = isl (timelineResult en ?v0 (memvid m) 1 False)"
    using engineTimeline_events [of en m 1 False ?v0]
    by (auto simp: engineTimeline_def Let_def split: sum.splits)
  from s have s': "events v2 = events v1 @ [EngineCall (memvid m) (OpTimeline 1 True)]"
      "held v2 = held v1"
    using engineTimeline_events [of en m 1 True v1] by simp_all
  show "events (snd (statsLocked en m v)) = events v @ statsCalls en m v"
    unfolding statsLocked_def statsCalls_def Let_def using t s t' s'
    by (auto simp: logEvent_def split: sum.splits prod.splits)
  show "held (snd (statsLocked en m v)) = held v"
    unfolding statsLocked_def Let_def using t s t' s'
    by (auto simp: logEvent_def split: sum.splits prod.splits)
qed

text \<open>
  C1. Each of \<open>remember\<close>, \<open>search\<close>, \<open>ask\<close>, \<open>getContext\<close>, \<open>saveSessionSummary\<close> and
  \<open>stats\<close> runs its critical section under the lock file \<open><memoryPath>.lock\<close>, the
  memory path being the configured path of the instance resolved against the working
  directory. When the lock is obtained, the log shows the lock obtained, the critical
  section entered, the calls of the engine that exactly one run of the critical section
  makes, and the lock released: one \<open>put\<close> for \<open>remember\<close> and \<open>saveSessionSummary\<close>,
  one \<open>find\<close> for \<open>search\<close>, one \<open>ask\<close> for \<open>ask\<close>, the timeline and then at most
  one \<open>find\<close> for \<open>getContext\<close>, the statistics and then at most two timelines for
  \<open>stats\<close>. The operation returns what that run returned and throws what it threw, and
  the lock is released in both cases. When the lock is not obtained, the operation throws
  and the engine is not called.
\<close>

theorem store_operations_under_lock:
  fixes en :: env and m :: mind and w :: world
  defines "lp \<equiv> resolve (cwd w) [cwd w, memoryPath (mindConfig m)] @ str ''.lock''"
  defines "timelineCall \<equiv>
    EngineCall (memvid m) (OpTimeline (maxContextObservations (mindConfig m)) True)"
  shows
    "underLock en lp (enginePut en (memvid m) (rememberFrame en m input w)) w
       (remember en m input w) [EngineCall (memvid m) (OpPut (rememberFrame en m input w))]
     \<and> underLock en lp (searchUnlocked en m query limit) w
         (search en m query limit w) [EngineCall (memvid m) (OpFind query limit)]
     \<and> underLock en lp (askLocked en m question) w
         (ask en m question w) [EngineCall (memvid m) (OpAsk question)]
     \<and> (\<exists>calls. underLock en lp (getContextLocked en m optQuery) w
                   (getContext en m optQuery w) calls
           \<and> (calls = [timelineCall]
                \<or> calls = [timelineCall, EngineCall (memvid m) (OpFind (orDefault optQuery []) 10)]))
     \<and> underLock en lp (enginePut en (memvid m) (sessionSummaryFrame en m summary w)) w
         (saveSessionSummary en m summary w)
         [EngineCall (memvid m) (OpPut (sessionSummaryFrame en m summary w))]
     \<and> (\<exists>calls. underLock en lp (statsLocked en m) w (stats en m w) calls
           \<and> (calls = [EngineCall (memvid m) OpStats]
                \<or> calls = [EngineCall (memvid m) OpStats,
                            EngineCall (memvid m) (OpTimeline 1 False)]
                \<or> calls = [EngineCall (memvid m) OpStats,
                            EngineCall (memvid m) (OpTimeline 1 False),
                            EngineCall (memvid m) (OpTimeline 1 True)]))"
proof -
  have lp: "getMemoryPath m w @ str ''.lock'' = lp"
    by (simp add: lp_def getMemoryPath_def)
  have 1: "underLock en lp (enginePut en (memvid m) fr) w
             (withMemvidLock en lp (enginePut en (memvid m) fr) w)
             [EngineCall (memvid m) (OpPut fr)]" for fr
    by (rule withMemvidLock_underLock [where calls = "\<lambda>v. [EngineCall (memvid m) (OpPut fr)]"])
       (simp_all add: enginePut_events)
  have 2: "underLock en lp (searchUnlocked en m query limit) w
             (withMemvidLock en lp (searchUnlocked en m query limit) w)
             [EngineCall (memvid m) (OpFind query limit)]"
    by (rule withMemvidLock_underLock
          [where calls = "\<lambda>v. [EngineCall (memvid m) (OpFind query limit)]"])
       (simp_all add: searchUnlocked_events)
  have 3: "underLock en lp (askLocked en m question) w
             (withMemvidLock en lp (askLocked en m question) w)
             [EngineCall (memvid m) (OpAsk question)]"
    by (rule withMemvidLock_underLock
          [where calls = "\<lambda>v. [EngineCall (memvid m) (OpAsk question)]"])
       (simp_all add: askLocked_events)
  have 4: "underLock en lp (getContextLocked en m optQuery) w
             (withMemvidLock en lp (getContextLocked en m optQuery) w)
             (contextCalls en m optQuery (lockedWorld lp w))"
    by (rule withMemvidLock_underLock) (simp_all add: getContextLocked_events)
  have 5: "underLock en lp (statsLocked en m) w (withMemvidLock en lp (statsLocked en m) w)
             (statsCalls en m (lockedWorld lp w))"
    by (rule withMemvidLock_underLock) (simp_all add: statsLocked_events)
  have c4: "contextCalls en m optQuery v = [timelineCall]
      \<or> contextCalls en m optQuery v
           = [timelineCall, EngineCall (memvid m) (OpFind (orDefault optQuery []) 10)]" for v
    by (simp add: contextCalls_def timelineCall_def)
  have c5: "statsCalls en m v = [EngineCall (memvid m) OpStats]
      \<or> statsCalls en m v = [EngineCall (memvid m) OpStats,
                              EngineCall (memvid m) (OpTimeline 1 False)]
      \<or> statsCalls en m v = [EngineCall (memvid m) OpStats,
                              EngineCall (memvid m) (OpTimeline 1 False),
                              EngineCall (memvid m) (OpTimeline 1 True)]" for v
    by (simp add: statsCalls_def)
  show ?thesis
    unfolding remember_def search_def ask_def getContext_def saveSessionSummary_def stats_def
      withLock_def lp
    using 1 2 3 4 5 c4 c5 by blast
qed

lemmas lock_eval =
  remember_def ask_def withLock_def withMemvidLock_def enginePut_def askLocked_def
  getMemoryPath_def resolve_def isAbsolute_def slash_def DEFAULT_CONFIG_def
  failingPutEnv_def noLockEnv_def sampleEnv_def sampleWorld_def touch_def fileAt_def
  logEvent_def sampleMind_def dirname_def sliceInit_def orElse_def

theorem store_operations_under_lock_witness:
  "acquires failingPutEnv (str ''/work/.claude/mind.mv2.lock'') sampleWorld
   \<and> fst (remember failingPutEnv sampleMind noteInput sampleWorld)
       = Inl (EngineError (str ''disk full''))
   \<and> held (snd (remember failingPutEnv sampleMind noteInput sampleWorld)) = []
   \<and> events (snd (remember failingPutEnv sampleMind noteInput sampleWorld)) =
       [Acquired (str ''/work/.claude/mind.mv2.lock''), Entered (str ''/work/.claude/mind.mv2.lock''),
        EngineCall (str ''/proj/.claude/mind.mv2'')
          (OpPut (rememberFrame failingPutEnv sampleMind noteInput sampleWorld)),
        Released (str ''/work/.claude/mind.mv2.lock'')]
   \<and> \<not> acquires noLockEnv (str ''/work/.claude/mind.mv2.lock'') sampleWorld
   \<and> fst (ask noLockEnv sampleMind (str ''what failed?'') sampleWorld) = Inl LockFailed
   \<and> held (snd (ask noLockEnv sampleMind (str ''what failed?'') sampleWorld)) = []
   \<and> events (snd (ask noLockEnv sampleMind (str ''what failed?'') sampleWorld)) = []"
  using store_operations_under_lock [of failingPutEnv sampleWorld sampleMind noteInput]
    store_operations_under_lock [of noLockEnv sampleWorld sampleMind _ _ _ "str ''what failed?''"]
  by (simp add: lock_eval acquires_def Let_def str_def)

subsection \<open>The process-wide instance\<close>













subsection \<open>Corruption recovery\<close>



lemma fileAt_removeFile: "fileAt (removeFile p fs) q = (if q = p then None else fileAt fs q)"
  by (induction fs) (auto simp: fileAt_def removeFile_def)



lemma lockedWorld_simps [simp]:
  "events (lockedWorld lp w) = events w @ [Acquired lp, Entered lp]"
  "held (lockedWorld lp w) = lp # held w"
  "clock (lockedWorld lp w) = clock w"
  "files (lockedWorld lp w) = files (touch lp w)"
  by (simp_all add: lockedWorld_def logEvent_def touch_def split: option.splits)


lemma lockPath_neq: "p @ str ''.lock'' \<noteq> p" "p \<noteq> p @ str ''.lock''"
  by (simp_all add: str_def)

lemma unlockedWorld_simps [simp]:
  "events (unlockedWorld lp v) = events v @ [Released lp]"
  "held (unlockedWorld lp v) = remove1 lp (held v)"
  "files (unlockedWorld lp v) = files v"
  by (simp_all add: unlockedWorld_def logEvent_def)

lemma logEvent_simps [simp]:
  "events (logEvent e v) = events v @ [e]"
  "held (logEvent e v) = held v"
  "files (logEvent e v) = files v"
  "clock (logEvent e v) = clock v"
  by (simp_all add: logEvent_def)




lemma unlink_simps [simp]:
  "files (unlink a v) = removeFile a (files v)"
  "events (unlink a v) = events v @ [Unlinked a]"
  "held (unlink a v) = held v"
  by (simp_all add: unlink_def)






subsection \<open>Content persisted by the hook\<close>

lemma putTexts_append [simp]: "putTexts (xs @ ys) = putTexts xs @ putTexts ys"
  by (simp add: putTexts_def map_filter_def)

lemma putTexts_simps [simp]:
  "putTexts [] = []"
  "putTexts (EngineCall p (OpPut fr) # es) = p_text fr # putTexts es"
  "putTexts (Acquired p # es) = putTexts es"
  "putTexts (Entered p # es) = putTexts es"
  "putTexts (Released p # es) = putTexts es"
  "putTexts (Renamed p q # es) = putTexts es"
  "putTexts (Unlinked p # es) = putTexts es"
  "putTexts (EngineCall p OpCreate # es) = putTexts es"
  "putTexts (EngineCall p OpUse # es) = putTexts es"
  by (simp_all add: putTexts_def map_filter_def)

lemma rename_noPuts: "putTexts (events (rename a b v)) = putTexts (events v)"
  by (simp add: rename_def split: option.splits)

lemma engineCreate_noPuts: "putTexts (events (snd (engineCreate en p v))) = putTexts (events v)"
  by (simp add: engineCreate_def Let_def)

lemma openLocked_noPuts: "putTexts (events (snd (openLocked en p v))) = putTexts (events v)"
  unfolding openLocked_def Let_def
  by (simp add: engineCreate_noPuts rename_noPuts split: option.splits)

lemma withMemvidLock_noPuts:
  assumes "\<And>v. putTexts (events (snd (fn v))) = putTexts (events v)"
  shows "putTexts (events (snd (withMemvidLock en lp fn w))) = putTexts (events w)"
proof -
  have "putTexts (events (snd (fn (lockedWorld lp w)))) = putTexts (events w)"
    using assms [of "lockedWorld lp w"] by simp
  then show ?thesis
    unfolding withMemvidLock_def Let_def lockedWorld_def [symmetric]
    by (auto split: prod.splits)
qed

lemma pruneStep_noPuts: "putTexts (events (pruneStep en b v)) = putTexts (events v)"
  by (simp add: pruneStep_def)

lemma fold_pruneStep_noPuts: "putTexts (events (fold (pruneStep en) bs v)) = putTexts (events v)"
  by (induction bs arbitrary: v) (simp_all add: pruneStep_noPuts)

lemma pruneBackups_noPuts: "putTexts (events (pruneBackups rt en p k v)) = putTexts (events v)"
  unfolding pruneBackups_def Let_def
  by (simp add: fold_pruneStep_noPuts split: option.splits)

lemma Mind_open_noPuts: "putTexts (events (snd (Mind_open rt en ov w))) = putTexts (events w)"
proof -
  let ?p = "openMemoryPath ov w"
  have "putTexts (events (snd (withMemvidLock en (?p @ str ''.lock'') (openLocked en ?p) w)))
          = putTexts (events w)"
    by (rule withMemvidLock_noPuts) (rule openLocked_noPuts)
  then show ?thesis
    unfolding Mind_open_def Let_def
    by (auto simp: pruneBackups_noPuts split: prod.splits sum.splits)
qed

lemma getMind_noPuts: "putTexts (events (snd (getMind rt en ov w))) = putTexts (events w)"
  using Mind_open_noPuts [of rt en ov w]
  by (auto simp: getMind_def getMindTest_def getMindResume_def
      split: option.splits prod.splits sum.splits)

lemma remember_putTexts:
  "putTexts (events (snd (remember en m input w))) = putTexts (events w)
   \<or> putTexts (events (snd (remember en m input w))) = putTexts (events w) @ [r_content input]"
  unfolding remember_def withLock_def withMemvidLock_def Let_def enginePut_def
  by (simp add: rememberFrame_def Let_def split: prod.splits sum.splits)

lemma hookObservation_content:
  assumes "hookObservation rt tool sid s metadata = Inr input"
  shows "(length s \<le> 3000 \<longrightarrow> r_content input = s)
       \<and> (length s > 3000 \<longrightarrow> length (r_content input) \<le> 2000)"
proof (cases "length s \<le> 3000")
  case True
  with assms show ?thesis
    by (auto simp: hookObservation_def dest: compressToolOutput_small split: sum.splits)
next
  case False
  then have "length s > 3000" by simp
  with assms show ?thesis
    by (auto simp: hookObservation_def dest: compressToolOutput_above_threshold split: sum.splits)
qed

text \<open>
  C8, amended. \<open>tool.execute.after\<close> hands at most one observation to \<open>put\<close>, and its
  content has at most 3000 code units, the compression threshold: an output of at most
  3000 code units is persisted as it is, and an output above the threshold is persisted
  compressed, with at most 2000 code units, the compression target. (A caller that does
  not go through \<open>compressToolOutput\<close>, as \<open>saveSessionSummary\<close> does, is not bounded.)
\<close>

theorem hook_content_bounded:
  "\<exists>new. putTexts (events (toolExecuteAfter rt en memPath tool sessionID out metadata w))
           = putTexts (events w) @ new
         \<and> length new \<le> 1
         \<and> list_all (\<lambda>t. length t \<le> 3000 \<and> hookContent out t) new"
proof -
  let ?ov = "noOverrides\<lparr>ov_memoryPath := Some memPath\<rparr>"
  obtain r w1 where g: "getMind rt en ?ov w = (r, w1)"
    by (cases "getMind rt en ?ov w") auto
  then have w1: "putTexts (events w1) = putTexts (events w)"
    using getMind_noPuts [of rt en ?ov w] by simp
  have "putTexts (events (toolExecuteAfter rt en memPath tool sessionID out metadata w))
        = putTexts (events w)
    \<or> (\<exists>m s input. outputStr out = Some s
        \<and> hookObservation rt tool sessionID s metadata = Inr input
        \<and> toolExecuteAfter rt en memPath tool sessionID out metadata w
            = snd (remember en m input w1))"
  proof (cases "tool \<in> set OBSERVED_TOOLS")
    case False
    then show ?thesis by (simp add: toolExecuteAfter_def)
  next
    case True
    show ?thesis
    proof (cases r)
      case (Inl e)
      with True g w1 show ?thesis by (simp add: toolExecuteAfter_def)
    next
      case (Inr m)
      show ?thesis
      proof (cases "outputStr out")
        case None
        with True g w1 Inr show ?thesis by (simp add: toolExecuteAfter_def)
      next
        case (Some s)
        show ?thesis
        proof (cases "hookObservation rt tool sessionID s metadata")
          case (Inl e)
          with True g w1 Inr Some show ?thesis by (simp add: toolExecuteAfter_def)
        next
          case obs: (Inr input)
          with True g Inr Some
          have "toolExecuteAfter rt en memPath tool sessionID out metadata w
                  = snd (remember en m input w1)"
            by (simp add: toolExecuteAfter_def)
          with Some obs show ?thesis by blast
        qed
      qed
    qed
  qed
  then consider (same) "putTexts (events (toolExecuteAfter rt en memPath tool sessionID out metadata w))
        = putTexts (events w)"
    | (put) m s input where "outputStr out = Some s"
        "hookObservation rt tool sessionID s metadata = Inr input"
        "toolExecuteAfter rt en memPath tool sessionID out metadata w = snd (remember en m input w1)"
    by blast
  then show ?thesis
  proof cases
    case same
    then show ?thesis by (intro exI [of _ "[]"]) simp
  next
    case (put m s input)
    from hookObservation_content [OF put(2)] put(1)
    have c: "length (r_content input) \<le> 3000 \<and> hookContent out (r_content input)"
      by (auto simp: hookContent_def)
    from remember_putTexts [of en m input w1] show ?thesis
    proof
      assume "putTexts (events (snd (remember en m input w1))) = putTexts (events w1)"
      then show ?thesis using put(3) w1 by (intro exI [of _ "[]"]) simp
    next
      assume "putTexts (events (snd (remember en m input w1)))
                = putTexts (events w1) @ [r_content input]"
      then show ?thesis using put(3) w1 c by (intro exI [of _ "[r_content input]"]) simp
    qed
  qed
qed


subsection \<open>Evaluation on the concrete states\<close>

lemmas open_eval =
  getMind_def getMindTest_def getMindResume_def Mind_open_def withMemvidLock_def openLocked_def engineCreate_def pruneBackups_def
  openMemoryPath_def projectDir_def mergeConfig_def noOverrides_def DEFAULT_CONFIG_def
  sampleEnv_def sampleWorld_def sampleRuntime_def
  touch_def fileAt_def writeFile_def removeFile_def logEvent_def freshStore_def
  resolve_def dirname_def isAbsolute_def sliceInit_def pop_def orElse_def slash_def
  backupPatternSource_def readdir_def isBackupName_def isDigit_def pruneStep_def
  rename_def unlink_def backupPathOf_def MAX_FILE_SIZE_MB_def isCorruptionMessage_def
  parseInt10_def isSpaceUnit_def isLineTerminator_def

lemmas hook_eval0 =
  toolExecuteAfter_def OBSERVED_TOOLS_def outputStr_def hookObservation_def
  remember_def withLock_def enginePut_def rememberFrame_def getMemoryPath_def pluginPath_def

lemmas hook_eval = hook_eval0 compressToolOutput_def COMPRESSION_THRESHOLD_def




lemma files_pruneWorld_opened:
  "files (snd (Mind_open sampleRuntime sampleEnv myMindOverrides pruneWorld)) =
     [(str ''/proj/.claude/my.mind.mv2'', goodFile),
      (str ''/proj/.claude/my.mind-mv2.backup-1700000000004'', garbageFile),
      (str ''/proj/.claude/my.mind-mv2.backup-1700000000005'', garbageFile),
      (str ''/proj/.claude/my.mind-mv2.backup-1700000000006'', garbageFile),
      (str ''/proj/.claude/my.mind.mv2.lock'', \<lparr>fsize = 0, openError = None, stored = []\<rparr>)]"
  by (simp add: open_eval pruneWorld_def myMindOverrides_def goodFile_def garbageFile_def
      Let_def str_def split: prod.splits)

text \<open>
  C5. The claim keeps the three newest files named \<open><basename>.backup-<digits>\<close>. The
  pattern is built with \<open>baseName.replace(".", "\\.")\<close>, which escapes the first dot
  only: for the store \<open>my.mind.mv2\<close> the second dot matches any code unit, the backups
  of the neighbouring store \<open>my.mind-mv2\<close> are counted as its own, and since they are
  newer, \<open>Mind.open\<close> deletes all three backups of \<open>my.mind.mv2\<close> and keeps none.
\<close>

theorem pruneBackups_unescaped_dot:
  "filter (isBackupName (str ''my.mind.mv2'')) (readdir pruneWorld (str ''/proj/.claude''))
     = [str ''my.mind.mv2.backup-1700000000001'', str ''my.mind.mv2.backup-1700000000002'',
        str ''my.mind.mv2.backup-1700000000003'']
   \<and> readdir (snd (Mind_open sampleRuntime sampleEnv myMindOverrides pruneWorld))
         (str ''/proj/.claude'')
       = [str ''my.mind.mv2'', str ''my.mind-mv2.backup-1700000000004'',
          str ''my.mind-mv2.backup-1700000000005'', str ''my.mind-mv2.backup-1700000000006'',
          str ''my.mind.mv2.lock'']
   \<and> filter (isBackupName (str ''my.mind.mv2''))
         (readdir (snd (Mind_open sampleRuntime sampleEnv myMindOverrides pruneWorld))
            (str ''/proj/.claude'')) = []"
proof -
  have a: "filter (isBackupName (str ''my.mind.mv2'')) (readdir pruneWorld (str ''/proj/.claude''))
     = [str ''my.mind.mv2.backup-1700000000001'', str ''my.mind.mv2.backup-1700000000002'',
        str ''my.mind.mv2.backup-1700000000003'']"
    by (simp add: readdir_def pruneWorld_def sampleWorld_def dirname_def sliceInit_def pop_def
        orElse_def slash_def isBackupName_def isDigit_def str_def)
  have b: "readdir (snd (Mind_open sampleRuntime sampleEnv myMindOverrides pruneWorld))
         (str ''/proj/.claude'')
       = [str ''my.mind.mv2'', str ''my.mind-mv2.backup-1700000000004'',
          str ''my.mind-mv2.backup-1700000000005'', str ''my.mind-mv2.backup-1700000000006'',
          str ''my.mind.mv2.lock'']"
    unfolding readdir_def files_pruneWorld_opened
    by (simp add: dirname_def sliceInit_def pop_def orElse_def slash_def str_def)
  show ?thesis
    unfolding b using a by (simp add: isBackupName_def str_def)
qed

lemma compress_ordinaryLog:
  "compressToolOutput sampleRuntime (str ''Bash'') ordinaryInput ordinaryLog =
     Inr \<lparr>compressed = ordinarySummary, wasCompressed = True, originalSize = 3500\<rparr>"
proof -
  have e: "filter isErrorLine
             (replicate 12 errLine @ replicate 6 okLine @ replicate 53 plainLine)
           = replicate 12 errLine"
    and s: "filter isSuccessLine
             (replicate 12 errLine @ replicate 6 okLine @ replicate 53 plainLine)
           = replicate 6 okLine"
    unfolding isErrorLine_mentions isSuccessLine_mentions
    by (simp_all add: filter_replicate mentions_lines)
  have "compressBashOutput ordinaryInput ordinaryLog = Inr ordinarySummary"
    unfolding compressBashOutput_eq [OF bashCommand_ordinaryInput] nl_def splitOn_ordinaryLog e s
    by (simp add: shortCmd_ordinary numToString_12_71 ordinarySummary_def sliceLast_def
        bashCommandHeader_def bashErrorsHeader_def bashSuccessHeader_def bashFooter_def
        nl_def str_def del: replicate_Suc)
  then show ?thesis
    by (simp add: compressToolOutput_def COMPRESSION_THRESHOLD_def length_ordinaryLog str_def
        truncateToTarget_keep length_ordinarySummary)
qed

theorem hook_content_bounded_witness:
  "putTexts (events (toolExecuteAfter sampleRuntime sampleEnv pluginPath (str ''Bash'')
       (str ''session-1'') (OutString ordinaryLog) ordinaryInput sampleWorld))
     = [ordinarySummary]
   \<and> length ordinaryLog = 3500 \<and> length ordinarySummary = 1716"
proof -
  define input where
    "input = \<lparr>r_type = typeName (classifyObservationType (str ''Bash'') ordinaryLog),
       r_summary = str ''OpenCode '' @ str ''Bash'' @ str '' completed'',
       r_content = ordinarySummary, r_tool = Some (str ''Bash''),
       r_metadata = mergeProps [(str ''sessionId'', JString (str ''session-1''))]
                      (toolInputProps ordinaryInput)\<rparr>"
  have ob: "str ''Bash'' \<in> set OBSERVED_TOOLS"
    by (simp add: OBSERVED_TOOLS_def)
  have h: "hookObservation sampleRuntime (str ''Bash'') (str ''session-1'') ordinaryLog
             ordinaryInput = Inr input"
    by (simp add: hookObservation_def compress_ordinaryLog input_def)
  have t: "toolExecuteAfter sampleRuntime sampleEnv pluginPath (str ''Bash'') (str ''session-1'')
             (OutString ordinaryLog) ordinaryInput sampleWorld
           = (case getMind sampleRuntime sampleEnv (noOverrides\<lparr>ov_memoryPath := Some pluginPath\<rparr>)
                     sampleWorld of
                (Inl e, w1) \<Rightarrow> w1
              | (Inr m, w1) \<Rightarrow> snd (remember sampleEnv m input w1))"
    by (simp add: toolExecuteAfter_def ob outputStr_def h split: prod.splits sum.splits)
  have c: "r_content input = ordinarySummary"
    by (simp add: input_def)
  have "putTexts (events (toolExecuteAfter sampleRuntime sampleEnv pluginPath (str ''Bash'')
       (str ''session-1'') (OutString ordinaryLog) ordinaryInput sampleWorld))
     = [ordinarySummary]"
    unfolding t
    by (simp add: open_eval remember_def withLock_def enginePut_def rememberFrame_def
        getMemoryPath_def pluginPath_def c Let_def str_def split: prod.splits)
  with hook_content_bounded [of sampleRuntime sampleEnv pluginPath "str ''Bash''"
      "str ''session-1''" "OutString ordinaryLog" ordinaryInput sampleWorld]
  show ?thesis
    by (simp add: length_ordinaryLog length_ordinarySummary)
qed

text \<open>
  C8, as stated, fails for an output between the target and the threshold: a Bash output
  of 2500 code units is not compressed, and the hook persists all 2500 code units, more
  than the compression target of 2000.
\<close>

theorem hook_content_counterexample:
  "putTexts (events (toolExecuteAfter sampleRuntime sampleEnv pluginPath (str ''Bash'')
       (str ''session-1'') (OutString (replicate 2500 120)) None sampleWorld))
     = [replicate 2500 120]
   \<and> length (replicate 2500 (120::nat)) > 2000"
  by (simp add: hook_eval open_eval Let_def str_def split: prod.splits)

end
